theory Spec2Isabelle
  imports Complex_Main
begin

section \<open>Numbers\<close>

text \<open>
  JavaScript numbers are modelled as exact reals: \<open>Math.round\<close> rounds half up,
  \<open>x || d\<close> on a number yields \<open>d\<close> exactly when \<open>x\<close> is \<open>0\<close> (the only falsy
  number besides NaN, which no input of the model carries). The source computes in
  IEEE doubles, so a sum such as \<open>62 * 0.3 + 35 * 0.4 + 23 * 0.3\<close>, exactly \<open>39.5\<close>,
  is \<open>39.49999999999999\<close> there and rounds to \<open>39\<close>, not \<open>40\<close>: where an exact value
  sits on a rounding tie or on a threshold, the code may land on the other side of it.
  The concrete inputs evaluated below stay clear of such ties.
\<close>

definition Math_round :: "real \<Rightarrow> real" where
  "Math_round x = of_int \<lfloor>x + 1 / 2\<rfloor>"

definition or_default :: "real \<Rightarrow> real \<Rightarrow> real" where
  "or_default x d = (if x = 0 then d else x)"

section \<open>Promises\<close>

text \<open>
  The outcome of an awaited promise, as \<open>Promise.allSettled\<close> reports it: fulfilled
  with a value, or rejected with an \<open>Error\<close> whose message is kept. A function of the
  source that can throw returns \<open>string + 'a\<close>, with \<open>Inl\<close> the thrown error's message.
\<close>

datatype 'a settled = Fulfilled 'a | Rejected string

section \<open>Scoring workflow: data\<close>

record weights =
  ruleBased :: real
  llm :: real
  external :: real

text \<open>The constructor's defaults: 0.3 / 0.4 / 0.3 and a spam threshold of 70.\<close>

definition default_weights :: weights where
  "default_weights = \<lparr>ruleBased = 3 / 10, llm = 4 / 10, external = 3 / 10\<rparr>"

definition default_spamThreshold :: real where
  "default_spamThreshold = 70"

text \<open>
  One verification channel as \<open>calculateExternalScore\<close> reads it: \<open>score\<close> is
  \<open>None\<close> when the field is absent or \<open>typeof score\<close> is not \<open>'number'\<close>.
\<close>

record channel =
  score :: "real option"
  error :: "string option"
  source :: "string option"
  apiCalled :: bool

text \<open>
  An entry of an error list, \<open>{source, error, timestamp}\<close> without the timestamp. The
  \<open>error\<close> property holds a message, or \<open>true\<close> for the semantic fallback result.
\<close>

datatype error_value = ErrorMessage string | ErrorTrue

record error_entry =
  err_source :: string
  err_value :: error_value

text \<open>
  The external verification object. A channel is \<open>None\<close> when the property is absent
  (as in the placeholder the workflow builds when the whole verification rejects).
\<close>

record external_data =
  email_channel :: "channel option"
  phone_channel :: "channel option"
  company_channel :: "channel option"
  domain_channel :: "channel option"
  apiCallsCount :: nat
  errors :: "error_entry list"
  ext_error :: "string option"

section \<open>Scoring workflow: the combination math\<close>

text \<open>\<open>calculateExternalScore\<close>: \<open>None\<close> stands for a null or undefined argument.\<close>

definition push_score :: "channel option \<Rightarrow> real list \<Rightarrow> real list" where
  "push_score ch scores =
     (case ch of
        None \<Rightarrow> scores
      | Some c \<Rightarrow> (case score c of None \<Rightarrow> scores | Some s \<Rightarrow> scores @ [s]))"

definition channel_scores :: "external_data \<Rightarrow> real list" where
  "channel_scores externalData =
     push_score (domain_channel externalData)
       (push_score (company_channel externalData)
         (push_score (phone_channel externalData)
           (push_score (email_channel externalData) [])))"

definition calculateExternalScore :: "external_data option \<Rightarrow> real" where
  "calculateExternalScore externalData =
     (case externalData of
        None \<Rightarrow> 50
      | Some d \<Rightarrow>
          (case channel_scores d of
             [] \<Rightarrow> 50
           | s # rest \<Rightarrow> foldl (\<lambda>sum score. sum + score) s rest / real (length (s # rest))))"

text \<open>
  The locals of \<open>calculateConfidence\<close>, over its array \<open>scores\<close>. The array is
  always the three-element literal \<open>[ruleScore, aiScore, externalScore]\<close>, so the
  \<open>reduce\<close> without initial value never meets an empty array; the \<open>[]\<close> case of
  \<open>scores_avg\<close> is unreachable.
\<close>

definition scores_avg :: "real list \<Rightarrow> real" where
  "scores_avg scores =
     (case scores of
        [] \<Rightarrow> 0
      | s # rest \<Rightarrow> foldl (\<lambda>sum score. sum + score) s rest / real (length scores))"

definition scores_variance :: "real list \<Rightarrow> real" where
  "scores_variance scores =
     foldl (\<lambda>sum score. sum + (score - scores_avg scores)\<^sup>2) 0 scores / real (length scores)"

definition standardDeviation :: "real list \<Rightarrow> real" where
  "standardDeviation scores = sqrt (scores_variance scores)"

definition allHigh :: "real list \<Rightarrow> bool" where
  "allHigh scores = list_all (\<lambda>score. score > 70) scores"

definition allLow :: "real list \<Rightarrow> bool" where
  "allLow scores = list_all (\<lambda>score. score < 40) scores"

definition calculateConfidence :: "real \<Rightarrow> real \<Rightarrow> real \<Rightarrow> real \<Rightarrow> real" where
  "calculateConfidence ruleScore aiScore externalScore aiConfidence =
     (let confidence = aiConfidence;
          scores = [ruleScore, aiScore, externalScore];
          confidence =
            (if standardDeviation scores > 20 then confidence - 15
             else if standardDeviation scores > 10 then confidence - 8
             else confidence);
          confidence =
            (if allHigh scores \<or> allLow scores then confidence + 10 else confidence)
      in max 0 (min 100 confidence))"

record breakdown =
  ruleBasedWeighted :: real
  llmWeighted :: real
  externalWeighted :: real
  bd_weights :: weights
  rawRuleBased :: real
  rawLlm :: real
  rawExternal :: real

record final_results =
  finalScore :: real
  confidence :: real
  breakdown :: breakdown

text \<open>
  \<open>calculateFinalScore\<close> reads \<open>ruleBasedScore.score\<close>, \<open>llmScore.score\<close> and
  \<open>llmScore.confidence\<close>; they are passed as \<open>rule_score\<close>, \<open>llm_score\<close> and
  \<open>llm_confidence\<close>.
\<close>

definition calculateFinalScore ::
  "weights \<Rightarrow> real \<Rightarrow> real \<Rightarrow> real \<Rightarrow> external_data option \<Rightarrow> final_results" where
  "calculateFinalScore w rule_score llm_score llm_confidence externalVerification =
     (let ruleScore = or_default rule_score 50;
          aiScore = or_default llm_score 50;
          externalScore = calculateExternalScore externalVerification;
          weightedScore =
            ruleScore * ruleBased w + aiScore * llm w + externalScore * external w;
          conf = calculateConfidence ruleScore aiScore externalScore
                   (or_default llm_confidence 50)
      in \<lparr>finalScore = Math_round (max 0 (min 100 weightedScore)),
          confidence = Math_round conf,
          breakdown =
            \<lparr>ruleBasedWeighted = ruleScore * ruleBased w,
             llmWeighted = aiScore * llm w,
             externalWeighted = externalScore * external w,
             bd_weights = w,
             rawRuleBased = ruleScore,
             rawLlm = aiScore,
             rawExternal = externalScore\<rparr>\<rparr>)"

datatype decision = approved | flagged | pending_review

definition makeDecision :: "real \<Rightarrow> real \<Rightarrow> real \<Rightarrow> decision \<times> string" where
  "makeDecision spamThreshold final_score conf =
     (if final_score \<ge> spamThreshold \<and> conf \<ge> 70
      then (approved, ''Recruiter appears legitimate and can be auto-approved'')
      else if final_score < 40 \<and> conf \<ge> 60
      then (flagged, ''High spam probability - recommend rejection'')
      else if conf < 50
      then (pending_review, ''Low confidence in assessment - requires human review'')
      else (pending_review, ''Score in uncertain range - manual review recommended''))"

section \<open>Strings\<close>

text \<open>
  Strings are ASCII character lists. \<open>toLowerCase\<close>, \<open>toUpperCase\<close>, \<open>trim\<close>,
  \<open>includes\<close>, \<open>startsWith\<close>, \<open>split\<close> and the regular expressions of the source are
  written out on them. A property that is \<open>null\<close> or \<open>undefined\<close> is \<open>None\<close>.
\<close>

definition toLowerCase :: "string \<Rightarrow> string" where
  "toLowerCase s =
     map (\<lambda>c. case map_of (zip ''ABCDEFGHIJKLMNOPQRSTUVWXYZ'' ''abcdefghijklmnopqrstuvwxyz'') c of
                 None \<Rightarrow> c | Some l \<Rightarrow> l) s"

definition toUpperCase :: "string \<Rightarrow> string" where
  "toUpperCase s =
     map (\<lambda>c. case map_of (zip ''abcdefghijklmnopqrstuvwxyz'' ''ABCDEFGHIJKLMNOPQRSTUVWXYZ'') c of
                 None \<Rightarrow> c | Some u \<Rightarrow> u) s"

definition is_digit :: "char \<Rightarrow> bool" where
  "is_digit c = (c \<in> set ''0123456789'')"

definition is_letter :: "char \<Rightarrow> bool" where
  "is_letter c = (c \<in> set ''abcdefghijklmnopqrstuvwxyzABCDEFGHIJKLMNOPQRSTUVWXYZ'')"

text \<open>The class \<open>\s\<close> on ASCII: space, tab, line feed, vertical tab, form feed, carriage return.\<close>

definition is_space :: "char \<Rightarrow> bool" where
  "is_space c = (c \<in> set [CHR '' '', CHR 0x09, CHR 0x0A, CHR 0x0B, CHR 0x0C, CHR 0x0D])"

definition trim :: "string \<Rightarrow> string" where
  "trim s = rev (dropWhile is_space (rev (dropWhile is_space s)))"

definition startsWith :: "string \<Rightarrow> string \<Rightarrow> bool" where
  "startsWith s p = (take (length p) s = p)"

fun str_includes :: "string \<Rightarrow> string \<Rightarrow> bool" where
  "str_includes [] p = (p = [])"
| "str_includes (c # s) p = (startsWith (c # s) p \<or> str_includes s p)"

text \<open>\<open>s.split(sep)\<close> for a one-character separator.\<close>

fun str_split :: "char \<Rightarrow> string \<Rightarrow> string list" where
  "str_split sep [] = [[]]"
| "str_split sep (c # s) =
     (if c = sep then [] # str_split sep s
      else (case str_split sep s of [] \<Rightarrow> [[c]] | p # ps \<Rightarrow> (c # p) # ps))"

section \<open>Rule engine\<close>

record recruiter_data =
  fullName :: "string option"
  companyName :: "string option"
  websiteUrl :: "string option"
  businessEmail :: "string option"
  phoneNumber :: "string option"
  role :: "string option"
  industry :: "string option"

text \<open>
  What the rule engine takes from outside the repository: \<open>validator.isEmail\<close>,
  \<open>validator.isURL\<close> with \<open>require_protocol\<close>, and the \<open>URL\<close> constructor, which
  yields the protocol and the host name or throws (\<open>None\<close>).
\<close>

record lib =
  isEmail :: "string \<Rightarrow> bool"
  isURL :: "string \<Rightarrow> bool"
  parseURL :: "string \<Rightarrow> (string \<times> string) option"

datatype severity = high | medium | low

text \<open>A flag \<open>{type, severity, message, impact}\<close>; the display message is left out.\<close>

record flag =
  flag_type :: string
  flag_severity :: severity
  impact :: int

text \<open>
  The running pair of an analyser: its \<open>score\<close> and its \<open>flags\<close>. \<open>penalise\<close> is the
  recurring step \<open>if (cond) { flags.push(flag); score -= penalty; }\<close>.
\<close>

type_synonym analysis = "real \<times> flag list"

definition penalise :: "bool \<Rightarrow> string \<Rightarrow> severity \<Rightarrow> int \<Rightarrow> analysis \<Rightarrow> analysis" where
  "penalise cond ty sev penalty st =
     (if cond
      then (fst st - of_int penalty,
            snd st @ [\<lparr>flag_type = ty, flag_severity = sev, impact = - penalty\<rparr>])
      else st)"

definition floor_at_zero :: "analysis \<Rightarrow> analysis" where
  "floor_at_zero st = (max 0 (fst st), snd st)"

definition company_keywords :: "string list" where
  "company_keywords =
     [''fake'', ''scam'', ''test'', ''xxx'', ''123'', ''temp'', ''sample'',
      ''demo'', ''placeholder'', ''example'', ''null'', ''undefined'']"

definition role_keywords :: "string list" where
  "role_keywords = [''CEO'', ''founder'', ''owner'', ''president'', ''VP'', ''director'']"

definition industry_keywords :: "string list" where
  "industry_keywords = [''adult'', ''gambling'', ''cryptocurrency'', ''mlm'', ''pyramid'']"

definition freeEmailProviders :: "string list" where
  "freeEmailProviders =
     [''gmail.com'', ''yahoo.com'', ''hotmail.com'', ''outlook.com'',
      ''protonmail.com'', ''mail.com'', ''10minutemail.com'',
      ''tempmail.org'', ''guerrillamail.com'']"

text \<open>
  Reading a property of \<open>null\<close> or \<open>undefined\<close> throws a \<open>TypeError\<close>. Its message,
  as Node words it, names what was read from and the property: for instance
  \<open>Cannot read properties of null (reading 'toLowerCase')\<close>.
\<close>

definition type_error :: "string \<Rightarrow> string \<Rightarrow> string" where
  "type_error what property =
     ''Cannot read properties of '' @ what @ '' (reading '' @ [CHR 0x27] @ property
       @ [CHR 0x27] @ '')''"

text \<open>
  \<open>checkKeywords\<close> calls \<open>toLowerCase\<close> on \<open>data.companyName\<close>, \<open>data.role\<close> and
  \<open>data.industry\<close> without a guard. A missing property of the recruiter is taken as
  \<open>null\<close>; for \<open>undefined\<close> the same error is thrown, with \<open>undefined\<close> in its message.
\<close>

definition checkKeywords :: "recruiter_data \<Rightarrow> string + analysis" where
  "checkKeywords data =
     (case companyName data of
        None \<Rightarrow> Inl (type_error ''null'' ''toLowerCase'')
      | Some company \<Rightarrow>
          (let companyLower = toLowerCase company;
               st1 = foldl (\<lambda>st keyword.
                        penalise (str_includes companyLower keyword)
                          ''suspicious_company_keyword'' high 15 st)
                      (85, []) company_keywords
           in case role data of
                None \<Rightarrow> Inl (type_error ''null'' ''toLowerCase'')
              | Some r \<Rightarrow>
                  (let roleLower = toLowerCase r;
                       st2 = foldl (\<lambda>st keyword.
                                penalise (str_includes roleLower keyword)
                                  ''senior_role_flag'' medium 5 st)
                              st1 role_keywords
                   in case industry data of
                        None \<Rightarrow> Inl (type_error ''null'' ''toLowerCase'')
                      | Some ind \<Rightarrow>
                          (let industryLower = toLowerCase ind;
                               st3 = foldl (\<lambda>st keyword.
                                        penalise (str_includes industryLower keyword)
                                          ''high_risk_industry'' high 20 st)
                                      st2 industry_keywords
                           in Inr (floor_at_zero st3)))))"

text \<open>
  The three e-mail patterns: \<open>/^[a-z]+[0-9]{3,}@/i\<close>,
  \<open>/^(test|admin|info|contact)[\d]*@/i\<close> and \<open>/noreply|no-reply|donotreply/i\<close>.
\<close>

definition next_is :: "char \<Rightarrow> string \<Rightarrow> bool" where
  "next_is c s = (case s of [] \<Rightarrow> False | x # _ \<Rightarrow> x = c)"

definition email_pattern1 :: "string \<Rightarrow> bool" where
  "email_pattern1 s =
     (let letters = takeWhile is_letter s;
          rest = dropWhile is_letter s;
          digits = takeWhile is_digit rest
      in letters \<noteq> [] \<and> length digits \<ge> 3 \<and> next_is (CHR ''@'') (dropWhile is_digit rest))"

definition email_pattern2 :: "string \<Rightarrow> bool" where
  "email_pattern2 s =
     list_ex (\<lambda>w. startsWith (toLowerCase s) w \<and>
                next_is (CHR ''@'') (dropWhile is_digit (drop (length w) s)))
       [''test'', ''admin'', ''info'', ''contact'']"

definition email_pattern3 :: "string \<Rightarrow> bool" where
  "email_pattern3 s =
     list_ex (str_includes (toLowerCase s)) [''noreply'', ''no-reply'', ''donotreply'']"

definition email_patterns :: "(string \<Rightarrow> bool) list" where
  "email_patterns = [email_pattern1, email_pattern2, email_pattern3]"

text \<open>
  \<open>analyzeEmail\<close>. \<open>email.split('@')[1]\<close> is \<open>undefined\<close> when the address holds no
  \<open>@\<close>, and \<open>toLowerCase\<close> on it throws.
\<close>

definition invalid_email :: analysis where
  "invalid_email =
     (30, [\<lparr>flag_type = ''invalid_email'', flag_severity = high, impact = -50\<rparr>])"

definition analyzeEmail :: "lib \<Rightarrow> string option \<Rightarrow> string + analysis" where
  "analyzeEmail L email =
     (case email of
        None \<Rightarrow> Inr invalid_email
      | Some e \<Rightarrow>
          if e = [] \<or> \<not> isEmail L e then Inr invalid_email
          else (case str_split (CHR ''@'') e of
                  _ # d # _ \<Rightarrow>
                    (let domain = toLowerCase d;
                         st1 = penalise (domain \<in> set freeEmailProviders)
                                 ''free_email_provider'' medium 10 (80, []);
                         st2 = foldl (\<lambda>st pattern.
                                  penalise (pattern e) ''spam_email_pattern'' high 25 st)
                                st1 email_patterns;
                         st3 = penalise (length domain < 4 \<or> length domain > 50)
                                 ''suspicious_domain_length'' medium 5 st2
                     in Inr (floor_at_zero st3))
                | _ \<Rightarrow> Inl (type_error ''undefined'' ''toLowerCase'')))"

text \<open>
  The five website patterns: \<open>/localhost/i\<close>, \<open>/192\.168\./\<close>, \<open>/127\.0\.0\.1/\<close>,
  \<open>/example\.(com|org|net)/i\<close> and \<open>/test\.(com|org|net)/i\<close>.
\<close>

definition website_patterns :: "(string \<Rightarrow> bool) list" where
  "website_patterns =
     [\<lambda>s. str_includes (toLowerCase s) ''localhost'',
      \<lambda>s. str_includes s ''192.168.'',
      \<lambda>s. str_includes s ''127.0.0.1'',
      \<lambda>s. list_ex (str_includes (toLowerCase s)) [''example.com'', ''example.org'', ''example.net''],
      \<lambda>s. list_ex (str_includes (toLowerCase s)) [''test.com'', ''test.org'', ''test.net'']]"

text \<open>
  \<open>analyzeWebsite\<close> catches what its body throws: a throwing \<open>URL\<close> constructor yields
  the score \<open>65\<close> with one flag.
\<close>

definition invalid_website :: analysis where
  "invalid_website =
     (45, [\<lparr>flag_type = ''invalid_website_url'', flag_severity = high, impact = -30\<rparr>])"

definition analyzeWebsite :: "lib \<Rightarrow> string option \<Rightarrow> analysis" where
  "analyzeWebsite L website =
     (case website of
        None \<Rightarrow> invalid_website
      | Some u \<Rightarrow>
          if u = [] \<or> \<not> isURL L u then invalid_website
          else (case parseURL L u of
                  None \<Rightarrow>
                    (65, [\<lparr>flag_type = ''website_analysis_error'', flag_severity = medium,
                           impact = -10\<rparr>])
                | Some (protocol, hostname) \<Rightarrow>
                    (let domain = toLowerCase hostname;
                         st1 = foldl (\<lambda>st pattern.
                                  penalise (pattern u) ''spam_website_pattern'' high 25 st)
                                (75, []) website_patterns;
                         st2 = (if protocol = ''https:'' then (fst st1 + 5, snd st1)
                                else penalise True ''no_https'' low 5 st1);
                         st3 = penalise (length domain < 4) ''domain_too_short'' medium 10 st2;
                         st4 = penalise (length (str_split (CHR ''.'') domain) > 4)
                                 ''too_many_subdomains'' medium 5 st3
                     in floor_at_zero st4)))"

text \<open>
  The three phone patterns \<open>/^(\+?1)?[d]{3,}/\<close> for \<open>d\<close> one of \<open>0\<close>, \<open>1\<close>, \<open>9\<close>:
  three \<open>d\<close>s at the start, or after a leading \<open>1\<close> or \<open>+1\<close>.
\<close>

definition phone_pattern :: "char \<Rightarrow> string \<Rightarrow> bool" where
  "phone_pattern d s =
     (startsWith s (replicate 3 d)
      \<or> (startsWith s ''+1'' \<and> startsWith (drop 2 s) (replicate 3 d))
      \<or> (startsWith s ''1'' \<and> startsWith (drop 1 s) (replicate 3 d)))"

definition phone_patterns :: "(string \<Rightarrow> bool) list" where
  "phone_patterns = [phone_pattern (CHR ''0''), phone_pattern (CHR ''1''), phone_pattern (CHR ''9'')]"

text \<open>\<open>phoneNumber.replace(/[\s\-\(\)\+]/g, '')\<close>.\<close>

definition cleanPhone :: "string \<Rightarrow> string" where
  "cleanPhone s = filter (\<lambda>c. \<not> (is_space c \<or> c \<in> set ''-()+'')) s"

definition missing_phone :: analysis where
  "missing_phone =
     (65, [\<lparr>flag_type = ''missing_phone'', flag_severity = medium, impact = -15\<rparr>])"

definition analyzePhone :: "string option \<Rightarrow> analysis" where
  "analyzePhone phone =
     (case phone of
        None \<Rightarrow> missing_phone
      | Some p \<Rightarrow>
          if p = [] then missing_phone
          else (let clean = cleanPhone p;
                    st1 = penalise (length clean < 10 \<or> length clean > 15)
                            ''invalid_phone_length'' medium 10 (80, []);
                    st2 = foldl (\<lambda>st pattern.
                             penalise (pattern p) ''spam_phone_pattern'' high 20 st)
                           st1 phone_patterns;
                    maxRepeats = list_ex (\<lambda>c. count_list clean c > 5) clean;
                    st3 = penalise maxRepeats ''repeated_digits'' medium 15 st2
                in floor_at_zero st3))"

definition genericNames :: "string list" where
  "genericNames = [''company'', ''business'', ''corp'', ''inc'', ''ltd'', ''llc'']"

definition invalid_company_name :: analysis where
  "invalid_company_name =
     (55, [\<lparr>flag_type = ''invalid_company_name'', flag_severity = high, impact = -30\<rparr>])"

definition analyzeCompanyName :: "string option \<Rightarrow> analysis" where
  "analyzeCompanyName company =
     (case company of
        None \<Rightarrow> invalid_company_name
      | Some n \<Rightarrow>
          if n = [] \<or> length (trim n) < 2 then invalid_company_name
          else (let nameLower = trim (toLowerCase n);
                    st1 = penalise (length (takeWhile is_digit (rev nameLower)) \<ge> 3)
                            ''company_name_with_many_numbers'' medium 10 (85, []);
                    st2 = penalise
                            (list_ex (\<lambda>generic. nameLower = generic
                                        \<or> startsWith nameLower (generic @ '' '')) genericNames)
                            ''generic_company_name'' medium 5 st1;
                    st3 = penalise (n = toUpperCase n \<and> length n > 10)
                            ''excessive_caps'' low 3 st2
                in floor_at_zero st3))"

definition vagueIndustries :: "string list" where
  "vagueIndustries = [''other'', ''various'', ''multiple'', ''general'']"

definition missing_industry :: analysis where
  "missing_industry =
     (80, [\<lparr>flag_type = ''missing_industry'', flag_severity = medium, impact = -10\<rparr>])"

definition analyzeIndustry :: "string option \<Rightarrow> analysis" where
  "analyzeIndustry ind =
     (case ind of
        None \<Rightarrow> missing_industry
      | Some i \<Rightarrow>
          if i = [] \<or> length (trim i) < 2 then missing_industry
          else (let industryLower = trim (toLowerCase i);
                    st1 = penalise (industryLower \<in> set vagueIndustries)
                            ''vague_industry'' low 5 (90, [])
                in floor_at_zero st1))"

record rule_details =
  keywordScore :: real
  emailDomainScore :: real
  websiteScore :: real
  phoneScore :: real
  companyNameScore :: real
  industryScore :: real
  flags :: "flag list"

record rule_results =
  rb_score :: real
  details :: rule_details

text \<open>The rule engine's own \<open>calculateFinalScore\<close>: every component is defined.\<close>

definition flagPenalty :: "flag list \<Rightarrow> real" where
  "flagPenalty fs =
     foldl (\<lambda>penalty f.
        if flag_severity f = high then penalty + 5
        else if flag_severity f = medium then penalty + 2
        else penalty + 1) 0 fs"

definition rule_calculateFinalScore :: "rule_details \<Rightarrow> real" where
  "rule_calculateFinalScore d =
     (let weightedSum =
            keywordScore d * (25 / 100) + emailDomainScore d * (20 / 100)
            + websiteScore d * (20 / 100) + phoneScore d * (15 / 100)
            + companyNameScore d * (15 / 100) + industryScore d * (5 / 100);
          totalWeight = 25 / 100 + 20 / 100 + 20 / 100 + 15 / 100 + 15 / 100 + 5 / 100;
          baseScore = (if totalWeight > 0 then weightedSum / totalWeight else 50);
          final = max 0 (min 100 (baseScore - flagPenalty (flags d)))
      in Math_round final)"

text \<open>
  The rule engine's \<open>scoreRecruiter\<close>: its \<open>catch\<close> logs and rethrows, so an error of
  \<open>checkKeywords\<close> or \<open>analyzeEmail\<close> rejects the returned promise.
\<close>

definition rule_scoreRecruiter :: "lib \<Rightarrow> recruiter_data \<Rightarrow> string + rule_results" where
  "rule_scoreRecruiter L recruiterData =
     (case checkKeywords recruiterData of
        Inl e \<Rightarrow> Inl e
      | Inr keywordResult \<Rightarrow>
          (case analyzeEmail L (businessEmail recruiterData) of
             Inl e \<Rightarrow> Inl e
           | Inr emailResult \<Rightarrow>
               (let websiteResult = analyzeWebsite L (websiteUrl recruiterData);
                    phoneResult = analyzePhone (phoneNumber recruiterData);
                    companyResult = analyzeCompanyName (companyName recruiterData);
                    industryResult = analyzeIndustry (industry recruiterData);
                    d = \<lparr>keywordScore = fst keywordResult,
                         emailDomainScore = fst emailResult,
                         websiteScore = fst websiteResult,
                         phoneScore = fst phoneResult,
                         companyNameScore = fst companyResult,
                         industryScore = fst industryResult,
                         flags = snd keywordResult @ snd emailResult @ snd websiteResult
                                 @ snd phoneResult @ snd companyResult @ snd industryResult\<rparr>
                in Inr \<lparr>rb_score = rule_calculateFinalScore d, details = d\<rparr>)))"

section \<open>External verification aggregator\<close>

text \<open>
  \<open>verifyPhone\<close>. The validity of the Numverify key is a configuration input; the
  HTTP call fulfils with the response body, or rejects (network failure, timeout, error
  status) with a message.
\<close>

record numverify_data =
  nv_error :: "string option option"
  nv_valid :: bool
  nv_line_type :: "string option"
  nv_carrier :: "string option"

text \<open>
  \<open>nv_error\<close> is \<open>None\<close> when the body has no \<open>error\<close> property, \<open>Some None\<close> when
  it has one without \<open>info\<close>, and \<open>Some (Some info)\<close> otherwise.
\<close>

definition isBasicValid :: "string \<Rightarrow> bool" where
  "isBasicValid clean = (list_all is_digit clean \<and> 10 \<le> length clean \<and> length clean \<le> 15)"

definition phone_fallback :: "string \<Rightarrow> string \<Rightarrow> channel" where
  "phone_fallback number message =
     \<lparr>score = Some (if isBasicValid (cleanPhone number) then 30 else 10),
      error = Some message, source = Some ''validation'', apiCalled = False\<rparr>"

definition verifyPhone :: "bool \<Rightarrow> numverify_data settled \<Rightarrow> string option \<Rightarrow> channel" where
  "verifyPhone keyValid http number =
     (case number of
        None \<Rightarrow> \<lparr>score = Some 0, error = Some ''Phone number not provided'',
                  source = Some ''validation'', apiCalled = False\<rparr>
      | Some p \<Rightarrow>
          if p = []
          then \<lparr>score = Some 0, error = Some ''Phone number not provided'',
                 source = Some ''validation'', apiCalled = False\<rparr>
          else if \<not> keyValid
          then \<lparr>score = Some (if isBasicValid (cleanPhone p) then 50 else 20),
                 error = None, source = Some ''validation'', apiCalled = False\<rparr>
          else (case http of
                  Rejected message \<Rightarrow> phone_fallback p message
                | Fulfilled d \<Rightarrow>
                    (case nv_error d of
                       Some info \<Rightarrow>
                         phone_fallback p
                           (case info of
                              None \<Rightarrow> ''Numverify API error''
                            | Some i \<Rightarrow> if i = [] then ''Numverify API error'' else i)
                     | None \<Rightarrow>
                         (let s0 = (if nv_valid d then 80 else 20);
                              s1 = (if nv_line_type d = Some ''mobile'' then s0 + 10 else s0);
                              s2 = (case nv_carrier d of
                                      None \<Rightarrow> s1
                                    | Some c \<Rightarrow> if length c > 0 then s1 + 5 else s1)
                          in \<lparr>score = Some (min 100 s2), error = None,
                                source = Some ''numverify'', apiCalled = True\<rparr>))))"





section \<open>Semantic assessor adapter\<close>

text \<open>The value \<open>JSON.parse\<close> returns. An object lists each key once.\<close>

datatype json =
    JNull
  | JBool bool
  | JNumber real
  | JString string
  | JArray "json list"
  | JObject "(string \<times> json) list"

text \<open>
  \<open>response.key\<close> on a value other than \<open>null\<close>: the member of an object, and
  \<open>undefined\<close> (\<open>None\<close>) on anything else for the keys the adapter reads.
\<close>

definition get_prop :: "json \<Rightarrow> string \<Rightarrow> json option" where
  "get_prop response k = (case response of JObject kvs \<Rightarrow> map_of kvs k | _ \<Rightarrow> None)"

record llm_result =
  lr_score :: real
  lr_confidence :: real
  reasoning :: string
  redFlags :: "string list"
  positiveIndicators :: "string list"
  recommendation :: string
  lr_error :: bool

text \<open>The model name, processing time and token usage of the result are left out.\<close>

definition valid_number :: "json option \<Rightarrow> real option" where
  "valid_number v =
     (case v of
        Some (JNumber x) \<Rightarrow> if x \<ge> 0 \<and> x \<le> 100 then Some (Math_round x) else None
      | _ \<Rightarrow> None)"

definition string_items :: "json option \<Rightarrow> string list option" where
  "string_items v =
     (case v of
        Some (JArray xs) \<Rightarrow>
          Some (concat (map (\<lambda>x. case x of JString s \<Rightarrow> [s] | _ \<Rightarrow> []) xs))
      | _ \<Rightarrow> None)"

definition validRecommendations :: "string list" where
  "validRecommendations = [''approve'', ''flag'', ''manual_review'']"

text \<open>
  \<open>normalizeResponse\<close> reads \<open>response.score\<close> first, which throws on \<open>null\<close>. An
  invalid score or confidence keeps its default, \<open>50\<close> in both cases.
\<close>

definition normalizeResponse :: "json \<Rightarrow> string + llm_result" where
  "normalizeResponse response =
     (case response of
        JNull \<Rightarrow> Inl (type_error ''null'' ''score'')
      | _ \<Rightarrow>
          Inr \<lparr>lr_score =
                 (case valid_number (get_prop response ''score'') of None \<Rightarrow> 50 | Some x \<Rightarrow> x),
               lr_confidence =
                 (case valid_number (get_prop response ''confidence'') of None \<Rightarrow> 50 | Some x \<Rightarrow> x),
               reasoning =
                 (case get_prop response ''reasoning'' of
                    Some (JString s) \<Rightarrow>
                      if trim s \<noteq> [] then trim s else ''No reasoning provided''
                  | _ \<Rightarrow> ''No reasoning provided''),
               redFlags =
                 (case string_items (get_prop response ''redFlags'') of None \<Rightarrow> [] | Some xs \<Rightarrow> xs),
               positiveIndicators =
                 (case string_items (get_prop response ''positiveIndicators'') of
                    None \<Rightarrow> [] | Some xs \<Rightarrow> xs),
               recommendation =
                 (case get_prop response ''recommendation'' of
                    Some (JString s) \<Rightarrow>
                      if s \<in> set validRecommendations then s else ''manual_review''
                  | _ \<Rightarrow> ''manual_review''),
               lr_error = False\<rparr>)"

definition getFallbackScore :: "string \<Rightarrow> llm_result" where
  "getFallbackScore errorMessage =
     \<lparr>lr_score = 50,
      lr_confidence = 0,
      reasoning = ''LLM analysis failed: '' @ errorMessage @ ''. Manual review recommended.'',
      redFlags = [''LLM_ANALYSIS_FAILED''],
      positiveIndicators = [],
      recommendation = ''manual_review'',
      lr_error = True\<rparr>"

text \<open>
  What the workflow hands to the adapter as rule-based context: the rule engine's
  results, or the placeholder \<open>{score: 50, error, source, details: {error: true}}\<close>
  built when the rule engine rejected.
\<close>

datatype processed_rule = RuleResults rule_results | RuleFailed string

definition processed_score :: "processed_rule \<Rightarrow> real" where
  "processed_score r = (case r of RuleResults x \<Rightarrow> rb_score x | RuleFailed _ \<Rightarrow> 50)"

text \<open>
  \<open>buildPrompt\<close> embeds \<open>ruleBasedResults.details.flags.length\<close> and the score. The
  placeholder's \<open>details\<close> has no \<open>flags\<close>, so the read throws. The prompt text itself
  only reaches the provider, whose outcome is an input; what is kept is the pair the
  context sentence is built from.
\<close>

definition buildPrompt :: "processed_rule option \<Rightarrow> string + (nat \<times> real) option" where
  "buildPrompt ruleBasedResults =
     (case ruleBasedResults of
        None \<Rightarrow> Inr None
      | Some (RuleResults r) \<Rightarrow> Inr (Some (length (flags (details r)), rb_score r))
      | Some (RuleFailed _) \<Rightarrow> Inl (type_error ''undefined'' ''length''))"

text \<open>
  The provider's part in one call: the request rejects (failure, timeout, error
  status) with a message, or it returns a text that \<open>JSON.parse\<close> rejects, or a text
  that parses to a value.
\<close>

datatype provider_outcome =
    CallRejected string
  | NotJSON string
  | Parsed json

text \<open>The body of the adapter's \<open>try\<close>: \<open>Inl\<close> is the message of what it throws.\<close>

definition llm_try :: "bool \<Rightarrow> processed_rule option \<Rightarrow> provider_outcome \<Rightarrow> string + llm_result" where
  "llm_try apiKeyConfigured ruleBasedResults outcome =
     (if \<not> apiKeyConfigured then Inl ''Gemini API key not configured''
      else (case buildPrompt ruleBasedResults of
              Inl e \<Rightarrow> Inl e
            | Inr _ \<Rightarrow>
                (case outcome of
                   CallRejected message \<Rightarrow> Inl message
                 | NotJSON _ \<Rightarrow> Inl ''Invalid JSON response from Gemini''
                 | Parsed parsedResult \<Rightarrow> normalizeResponse parsedResult)))"

text \<open>The adapter's \<open>scoreRecruiter\<close>: the \<open>catch\<close> turns every throw into the fallback.\<close>

definition llm_scoreRecruiter ::
  "bool \<Rightarrow> processed_rule option \<Rightarrow> provider_outcome \<Rightarrow> llm_result" where
  "llm_scoreRecruiter apiKeyConfigured ruleBasedResults outcome =
     (case llm_try apiKeyConfigured ruleBasedResults outcome of
        Inl message \<Rightarrow> getFallbackScore message
      | Inr normalizedResult \<Rightarrow> normalizedResult)"

section \<open>Scoring workflow\<close>

text \<open>The workflow's \<open>handlePromiseResult\<close>, for the rule-based and the external promise.\<close>

definition rule_handlePromiseResult :: "rule_results settled \<Rightarrow> processed_rule" where
  "rule_handlePromiseResult result =
     (case result of Fulfilled v \<Rightarrow> RuleResults v | Rejected message \<Rightarrow> RuleFailed message)"

definition external_handlePromiseResult :: "external_data settled \<Rightarrow> external_data" where
  "external_handlePromiseResult result =
     (case result of
        Fulfilled v \<Rightarrow> v
      | Rejected message \<Rightarrow>
          \<lparr>email_channel = None, phone_channel = None, company_channel = None,
           domain_channel = None, apiCallsCount = 0, errors = [],
           ext_error = Some message\<rparr>)"

text \<open>
  \<open>collectAllErrors\<close> over the rule-based, semantic and external results, in this
  order: the result's own \<open>error\<close> when truthy, then its nested \<open>errors\<close> array.
\<close>

definition collectAllErrors :: "processed_rule \<Rightarrow> llm_result \<Rightarrow> external_data \<Rightarrow> error_entry list" where
  "collectAllErrors ruleResults llmResults externalResults =
     (case ruleResults of
        RuleFailed message \<Rightarrow>
          if message = [] then []
          else [\<lparr>err_source = ''rule-based'', err_value = ErrorMessage message\<rparr>]
      | RuleResults _ \<Rightarrow> [])
     @ (if lr_error llmResults then [\<lparr>err_source = ''llm'', err_value = ErrorTrue\<rparr>] else [])
     @ (case ext_error externalResults of
          None \<Rightarrow> []
        | Some message \<Rightarrow>
            if message = [] then []
            else [\<lparr>err_source = ''external'', err_value = ErrorMessage message\<rparr>])
     @ errors externalResults"

record decision_record =
  dr_recruiterId :: string
  dr_finalScore :: real
  dr_decision :: decision
  dr_confidence :: real
  dr_breakdown :: breakdown
  dr_recommendation :: string
  dr_ruleBasedScore :: real
  dr_llmScore :: llm_result
  dr_externalVerification :: external_data
  dr_errors :: "error_entry list"

text \<open>
  What one run of the workflow meets outside: whether the recruiter is found, how the
  rule-based and the external promise settle, the semantic provider's configuration
  and outcome, and whether a persistence call (\<open>VerificationResult.create\<close>,
  \<open>Recruiter.update\<close>) rejects.
\<close>

record run =
  found :: bool
  ruleBasedSettled :: "rule_results settled"
  externalSettled :: "external_data settled"
  apiKeyConfigured :: bool
  provider :: provider_outcome
  persistenceFailure :: "string option"

text \<open>
  The workflow's \<open>scoreRecruiter\<close>. Its \<open>catch\<close> saves an error record and rethrows,
  so a missing recruiter or a failing persistence call rejects the returned promise.
  Timings are left out of the record.
\<close>

definition scoreRecruiter :: "weights \<Rightarrow> real \<Rightarrow> run \<Rightarrow> string \<Rightarrow> string + decision_record" where
  "scoreRecruiter w spamThreshold env recruiterId =
     (if \<not> found env then Inl (''Recruiter not found: '' @ recruiterId)
      else
        (let processedRuleResults = rule_handlePromiseResult (ruleBasedSettled env);
             processedExternalResults = external_handlePromiseResult (externalSettled env);
             llmResults = llm_scoreRecruiter (apiKeyConfigured env)
                            (Some processedRuleResults) (provider env);
             finalResults = calculateFinalScore w (processed_score processedRuleResults)
                              (lr_score llmResults) (lr_confidence llmResults)
                              (Some processedExternalResults);
             d = makeDecision spamThreshold (finalScore finalResults) (confidence finalResults)
         in case persistenceFailure env of
              Some message \<Rightarrow> Inl message
            | None \<Rightarrow>
                Inr \<lparr>dr_recruiterId = recruiterId,
                     dr_finalScore = finalScore finalResults,
                     dr_decision = fst d,
                     dr_confidence = confidence finalResults,
                     dr_breakdown = breakdown finalResults,
                     dr_recommendation = snd d,
                     dr_ruleBasedScore = processed_score processedRuleResults,
                     dr_llmScore = llmResults,
                     dr_externalVerification = processedExternalResults,
                     dr_errors = collectAllErrors processedRuleResults llmResults
                                   processedExternalResults\<rparr>))"

section \<open>Batch coordinator\<close>

text \<open>
  An element of the batch's \<open>results\<close> array: \<open>{success: true, recruiterId, result}\<close>,
  \<open>{success: false, recruiterId, error}\<close>, or the \<open>Error\<close> a rejected promise carries
  as its \<open>reason\<close>.
\<close>

datatype ('i, 'r) batch_entry =
    Succeeded 'i 'r
  | Failed 'i string
  | Reason string

text \<open>
  The callback mapped over one chunk, for a scoring function that fulfils (\<open>Inr\<close>) or
  rejects (\<open>Inl\<close>) per recruiter id.
\<close>

definition batch_item ::
  "('i \<Rightarrow> string + 'r) \<Rightarrow> bool \<Rightarrow> 'i \<Rightarrow> ('i, 'r) batch_entry settled" where
  "batch_item score_one continueOnError recruiterId =
     (case score_one recruiterId of
        Inr result \<Rightarrow> Fulfilled (Succeeded recruiterId result)
      | Inl message \<Rightarrow>
          if continueOnError then Fulfilled (Failed recruiterId message)
          else Rejected message)"

text \<open>\<open>r.status === 'fulfilled' ? r.value : r.reason\<close>.\<close>

definition value_or_reason :: "('i, 'r) batch_entry settled \<Rightarrow> ('i, 'r) batch_entry" where
  "value_or_reason r = (case r of Fulfilled v \<Rightarrow> v | Rejected reason \<Rightarrow> Reason reason)"

text \<open>
  The loop \<open>for (let i = 0; i < recruiterIds.length; i += concurrency)\<close>, with the
  entries pushed so far. With \<open>concurrency = 0\<close> it does not end, and the value is
  \<open>None\<close>.
\<close>

partial_function (option) batch_loop ::
  "('i \<Rightarrow> string + 'r) \<Rightarrow> bool \<Rightarrow> nat \<Rightarrow> 'i list \<Rightarrow> nat \<Rightarrow> ('i, 'r) batch_entry list
     \<Rightarrow> ('i, 'r) batch_entry list option" where
  "batch_loop score_one continueOnError concurrency recruiterIds i pushed =
     (if i < length recruiterIds
      then batch_loop score_one continueOnError concurrency recruiterIds (i + concurrency)
             (pushed @ map (\<lambda>recruiterId. value_or_reason
                 (batch_item score_one continueOnError recruiterId))
               (take concurrency (drop i recruiterIds)))
      else Some pushed)"

text \<open>\<open>r.success\<close> is \<open>undefined\<close>, hence falsy, on an \<open>Error\<close>.\<close>

fun success :: "('i, 'r) batch_entry \<Rightarrow> bool" where
  "success (Succeeded _ _) = True"
| "success (Failed _ _) = False"
| "success (Reason _) = False"

fun entry_id :: "('i, 'r) batch_entry \<Rightarrow> 'i option" where
  "entry_id (Succeeded i _) = Some i"
| "entry_id (Failed i _) = Some i"
| "entry_id (Reason _) = None"

record ('i, 'r) batch_result =
  total :: nat
  successful :: nat
  failed :: nat
  results :: "('i, 'r) batch_entry list"

definition batchScoreRecruiters ::
  "('i \<Rightarrow> string + 'r) \<Rightarrow> 'i list \<Rightarrow> nat \<Rightarrow> bool \<Rightarrow> ('i, 'r) batch_result option" where
  "batchScoreRecruiters score_one recruiterIds concurrency continueOnError =
     (case batch_loop score_one continueOnError concurrency recruiterIds 0 [] of
        None \<Rightarrow> None
      | Some rs \<Rightarrow>
          Some \<lparr>total = length rs,
                successful = length (filter success rs),
                failed = length rs - length (filter success rs),
                results = rs\<rparr>)"

section \<open>Example inputs\<close>

text \<open>
  A channel that resolved with score \<open>s\<close> and no error, and a verification object
  whose four channels resolved with the given scores.
\<close>

definition ok_channel :: "real \<Rightarrow> channel" where
  "ok_channel s = \<lparr>score = Some s, error = None, source = None, apiCalled = False\<rparr>"

definition four_channels :: "real \<Rightarrow> real \<Rightarrow> real \<Rightarrow> real \<Rightarrow> external_data" where
  "four_channels e p c d =
     \<lparr>email_channel = Some (ok_channel e), phone_channel = Some (ok_channel p),
      company_channel = Some (ok_channel c), domain_channel = Some (ok_channel d),
      apiCallsCount = 0, errors = [], ext_error = None\<rparr>"

section \<open>The confidence computation in the specification's words\<close>

text \<open>
  The population standard deviation of three scores, and the confidence as the
  specification describes it: the agreement bonus is granted when all three scores are
  \<open>\<ge> 70\<close> or all are \<open>< 40\<close>. \<open>amended_confidence\<close> differs only in the strict
  comparison \<open>> 70\<close>.
\<close>

definition population_sd :: "real \<Rightarrow> real \<Rightarrow> real \<Rightarrow> real" where
  "population_sd r a e =
     (let m = (r + a + e) / 3
      in sqrt (((r - m)\<^sup>2 + (a - m)\<^sup>2 + (e - m)\<^sup>2) / 3))"

definition spec_confidence :: "real \<Rightarrow> real \<Rightarrow> real \<Rightarrow> real \<Rightarrow> real" where
  "spec_confidence r a e c =
     (let penalty = (if population_sd r a e > 20 then 15
                     else if population_sd r a e > 10 then 8 else 0);
          bonus = (if (r \<ge> 70 \<and> a \<ge> 70 \<and> e \<ge> 70) \<or> (r < 40 \<and> a < 40 \<and> e < 40)
                   then 10 else 0)
      in max 0 (min 100 (c - penalty + bonus)))"

definition amended_confidence :: "real \<Rightarrow> real \<Rightarrow> real \<Rightarrow> real \<Rightarrow> real" where
  "amended_confidence r a e c =
     (let penalty = (if population_sd r a e > 20 then 15
                     else if population_sd r a e > 10 then 8 else 0);
          bonus = (if (r > 70 \<and> a > 70 \<and> e > 70) \<or> (r < 40 \<and> a < 40 \<and> e < 40)
                   then 10 else 0)
      in max 0 (min 100 (c - penalty + bonus)))"

text \<open>
  A recruiter of the demo data, the rule engine's results for it, and a run of the
  workflow in which every source answers.
\<close>

definition sample_recruiter :: recruiter_data where
  "sample_recruiter =
     \<lparr>fullName = Some ''Sarah Johnson'',
      companyName = Some ''TechCorp Solutions'',
      websiteUrl = Some ''https://techcorp-solutions.com'',
      businessEmail = Some ''sarah.johnson@techcorp-solutions.com'',
      phoneNumber = Some ''+1-555-0123'',
      role = Some ''Senior Technical Recruiter'',
      industry = Some ''Technology''\<rparr>"

definition sample_rule_results :: rule_results where
  "sample_rule_results =
     \<lparr>rb_score = 79,
      details = \<lparr>keywordScore = 85, emailDomainScore = 80, websiteScore = 80,
                 phoneScore = 70, companyNameScore = 85, industryScore = 90,
                 flags = [\<lparr>flag_type = ''invalid_phone_length'', flag_severity = medium,
                           impact = -10\<rparr>]\<rparr>\<rparr>"

definition healthy_run :: run where
  "healthy_run =
     \<lparr>found = True,
      ruleBasedSettled = Fulfilled sample_rule_results,
      externalSettled = Fulfilled (four_channels 60 50 73 85),
      apiKeyConfigured = True,
      provider = Parsed (JObject [(''score'', JNumber 85), (''confidence'', JNumber 90),
                   (''recommendation'', JString ''approve'')]),
      persistenceFailure = None\<rparr>"

text \<open>The same run with a rule-based score of \<open>0\<close>, a semantic score of \<open>80\<close> and channels at \<open>80\<close>.\<close>

definition zero_rule_run :: run where
  "zero_rule_run =
     \<lparr>found = True,
      ruleBasedSettled = Fulfilled (sample_rule_results\<lparr>rb_score := 0\<rparr>),
      externalSettled = Fulfilled (four_channels 80 80 80 80),
      apiKeyConfigured = True,
      provider = Parsed (JObject [(''score'', JNumber 80), (''confidence'', JNumber 90)]),
      persistenceFailure = None\<rparr>"

text \<open>A batch in which the recruiter \<open>b\<close> does not exist.\<close>

definition runs_b_missing :: "string \<Rightarrow> run" where
  "runs_b_missing recruiterId =
     (if recruiterId = ''b'' then healthy_run\<lparr>found := False\<rparr> else healthy_run)"

text \<open>A payload whose score is out of range and whose confidence is not a number.\<close>

definition out_of_range_payload :: json where
  "out_of_range_payload = JObject [(''score'', JNumber 150), (''confidence'', JString ''high'')]"

text \<open>A run whose semantic call times out, and one whose phone channel rejects on a timeout.\<close>

definition timed_out_run :: run where
  "timed_out_run = healthy_run\<lparr>provider := CallRejected ''timeout of 10000ms exceeded''\<rparr>"


section \<open>The external aggregate in the specification's words\<close>



section \<open>Arithmetic of the combination\<close>

lemma Math_round_int: "Math_round (of_int n) = of_int n"
  by (simp add: Math_round_def)

lemma Math_round_numeral: "Math_round (numeral n) = numeral n"
  using Math_round_int [of "numeral n"] by simp

lemma Math_round_zero: "Math_round 0 = 0"
  using Math_round_int [of 0] by simp

lemma Math_round_bounds: "x - 1 / 2 \<le> Math_round x \<and> Math_round x \<le> x + 1 / 2"
  unfolding Math_round_def by linarith

lemma Math_round_range:
  "0 \<le> x \<Longrightarrow> x \<le> 100 \<Longrightarrow> 0 \<le> Math_round x \<and> Math_round x \<le> 100"
  unfolding Math_round_def by (auto simp: floor_le_iff le_floor_iff)

lemma sqrt_gt_20: "20 < sqrt v \<longleftrightarrow> 400 < v"
proof -
  have "sqrt 400 = 20" using real_sqrt_abs [of 20] by simp
  then show ?thesis using real_sqrt_less_iff [of 400 v] by simp
qed

lemma sqrt_gt_10: "10 < sqrt v \<longleftrightarrow> 100 < v"
proof -
  have "sqrt 100 = 10" using real_sqrt_abs [of 10] by simp
  then show ?thesis using real_sqrt_less_iff [of 100 v] by simp
qed

text \<open>The variance of three scores is a ninth of the sum of their squared pairwise gaps.\<close>

lemma variance3:
  "scores_variance [a, b, c] = ((a - b)\<^sup>2 + (a - c)\<^sup>2 + (b - c)\<^sup>2) / 9"
  by (simp add: scores_variance_def scores_avg_def power2_eq_square field_simps)

lemma sd_gt_20:
  "standardDeviation [a, b, c] > 20 \<longleftrightarrow> (a - b)\<^sup>2 + (a - c)\<^sup>2 + (b - c)\<^sup>2 > 3600"
  by (simp add: standardDeviation_def sqrt_gt_20 variance3)

lemma sd_gt_10:
  "standardDeviation [a, b, c] > 10 \<longleftrightarrow> (a - b)\<^sup>2 + (a - c)\<^sup>2 + (b - c)\<^sup>2 > 900"
  by (simp add: standardDeviation_def sqrt_gt_10 variance3)

lemma population_sd_eq: "population_sd r a e = standardDeviation [r, a, e]"
  by (simp add: population_sd_def standardDeviation_def scores_variance_def scores_avg_def Let_def)

lemma external_four:
  "calculateExternalScore (Some (four_channels e p c d)) = (e + p + c + d) / 4"
  by (simp add: calculateExternalScore_def channel_scores_def push_score_def
      four_channels_def ok_channel_def)

text \<open>\<open>calculateConfidence\<close> without the square root, for evaluation on numerals.\<close>

lemma conf_unfold:
  "calculateConfidence r a e c =
     max 0 (min 100
       ((if (a - r)\<^sup>2 + (e - r)\<^sup>2 + (e - a)\<^sup>2 > 3600 then c - 15
         else if (a - r)\<^sup>2 + (e - r)\<^sup>2 + (e - a)\<^sup>2 > 900 then c - 8 else c)
        + (if (r > 70 \<and> a > 70 \<and> e > 70) \<or> (r < 40 \<and> a < 40 \<and> e < 40) then 10 else 0)))"
  by (simp add: calculateConfidence_def sd_gt_20 sd_gt_10 allHigh_def allLow_def Let_def
      power2_commute)

lemma calculateConfidence_amended:
  "calculateConfidence r a e c = amended_confidence r a e c"
  by (simp add: calculateConfidence_def amended_confidence_def population_sd_eq
      allHigh_def allLow_def Let_def)

lemma engine_confidence:
  "confidence (calculateFinalScore w r a c ext) =
     Math_round (calculateConfidence (or_default r 50) (or_default a 50)
       (calculateExternalScore ext) (or_default c 50))"
  by (simp add: calculateFinalScore_def Let_def)

lemma sq_ge: "(0::real) \<le> k \<Longrightarrow> k \<le> \<bar>x\<bar> \<Longrightarrow> k\<^sup>2 \<le> x\<^sup>2"
  using power_mono [of k "\<bar>x\<bar>" 2] by simp

lemma sq_le: "\<bar>x\<bar> \<le> (k::real) \<Longrightarrow> x\<^sup>2 \<le> k\<^sup>2"
  using power_mono [of "\<bar>x\<bar>" k 2] by simp

lemma spread_sorted:
  fixes a b c :: real
  assumes "a \<le> b" "b \<le> c" "c - a \<le> k"
  shows "(b - a)\<^sup>2 + (c - a)\<^sup>2 + (c - b)\<^sup>2 \<le> 2 * k\<^sup>2"
proof -
  have "0 \<le> (b - a) * (c - b)" using assms by simp
  then have "(b - a)\<^sup>2 + (c - b)\<^sup>2 \<le> (c - a)\<^sup>2"
    by (simp add: power2_eq_square algebra_simps)
  moreover have "(c - a)\<^sup>2 \<le> k\<^sup>2" using assms by (intro sq_le) simp
  ultimately show ?thesis by linarith
qed

text \<open>Three scores within an interval: the squared gaps sum to at most twice its squared width.\<close>

lemma spread_bound:
  fixes a b c :: real
  assumes "lo \<le> a" "a \<le> hi" "lo \<le> b" "b \<le> hi" "lo \<le> c" "c \<le> hi"
  shows "(b - a)\<^sup>2 + (c - a)\<^sup>2 + (c - b)\<^sup>2 \<le> 2 * (hi - lo)\<^sup>2"
proof -
  consider "a \<le> b \<and> b \<le> c" | "a \<le> c \<and> c \<le> b" | "b \<le> a \<and> a \<le> c"
    | "b \<le> c \<and> c \<le> a" | "c \<le> a \<and> a \<le> b" | "c \<le> b \<and> b \<le> a" by linarith
  then show ?thesis
  proof cases
    case 1 then show ?thesis using spread_sorted [of a b c "hi - lo"] assms by simp
  next
    case 2 then show ?thesis using spread_sorted [of a c b "hi - lo"] assms
      by (simp add: power2_commute [of b c] add.commute)
  next
    case 3 then show ?thesis using spread_sorted [of b a c "hi - lo"] assms
      by (simp add: power2_commute [of b a])
  next
    case 4 then show ?thesis using spread_sorted [of b c a "hi - lo"] assms
      by (simp add: power2_commute [of a b] power2_commute [of a c])
  next
    case 5 then show ?thesis using spread_sorted [of c a b "hi - lo"] assms
      by (simp add: power2_commute [of a c] power2_commute [of b c])
  next
    case 6 then show ?thesis using spread_sorted [of c b a "hi - lo"] assms
      by (simp add: power2_commute [of a c] power2_commute [of b c] power2_commute [of a b])
  qed
qed

lemma conf_all_high:
  assumes "80 \<le> r" "r \<le> 100" "80 \<le> a" "a \<le> 100" "80 \<le> e" "e \<le> 100"
  shows "calculateConfidence r a e c = max 0 (min 100 (c + 10))"
proof -
  have "(a - r)\<^sup>2 + (e - r)\<^sup>2 + (e - a)\<^sup>2 \<le> 2 * (100 - 80)\<^sup>2"
    using assms by (intro spread_bound) auto
  then have "\<not> (a - r)\<^sup>2 + (e - r)\<^sup>2 + (e - a)\<^sup>2 > 900" by simp
  then show ?thesis using assms by (simp add: conf_unfold)
qed

lemma conf_outlier:
  assumes "(r = 20 \<and> 80 \<le> a \<and> 80 \<le> e) \<or> (a = 20 \<and> 80 \<le> r \<and> 80 \<le> e)
             \<or> (e = 20 \<and> 80 \<le> r \<and> 80 \<le> a)"
  shows "calculateConfidence r a e c = max 0 (min 100 (c - 15))"
proof -
  have big: "60 \<le> \<bar>x\<bar> \<Longrightarrow> 3600 \<le> x\<^sup>2" for x :: real
    using sq_ge [of 60 x] by simp
  have "3600 \<le> (a - r)\<^sup>2 \<or> 3600 \<le> (e - a)\<^sup>2"
    using assms by (auto intro!: big)
  moreover have "3600 \<le> (e - r)\<^sup>2 \<or> 3600 \<le> (a - r)\<^sup>2"
    using assms by (auto intro!: big)
  moreover have "3600 \<le> (e - r)\<^sup>2 \<or> 3600 \<le> (e - a)\<^sup>2"
    using assms by (auto intro!: big)
  moreover have "0 \<le> (a - r)\<^sup>2" "0 \<le> (e - r)\<^sup>2" "0 \<le> (e - a)\<^sup>2" by simp_all
  ultimately have "(a - r)\<^sup>2 + (e - r)\<^sup>2 + (e - a)\<^sup>2 > 3600" by linarith
  moreover have "\<not> ((r > 70 \<and> a > 70 \<and> e > 70) \<or> (r < 40 \<and> a < 40 \<and> e < 40))"
    using assms by auto
  ultimately show ?thesis by (auto simp: conf_unfold)
qed

lemma clamp_strict:
  fixes x y :: real
  assumes "x < y" "x < 100"
  shows "max 0 (min 100 x) \<le> max 0 (min 100 y) \<and>
         (max 0 (min 100 x) < max 0 (min 100 y) \<longleftrightarrow> 0 < max 0 (min 100 y))"
  using assms by (auto simp: max_def min_def)

section \<open>The final score\<close>

text \<open>The final score is always an integer-rounded value within the score range.\<close>

lemma finalScore_range:
  "0 \<le> finalScore (calculateFinalScore w r a c ext) \<and>
   finalScore (calculateFinalScore w r a c ext) \<le> 100"
  by (simp add: calculateFinalScore_def Let_def Math_round_range)

text \<open>
  When neither the rule-based nor the semantic raw score is \<open>0\<close>, the final score is
  the rounded, clamped weighted sum of the three raw scores, in exact arithmetic; in
  doubles the result can differ by \<open>1\<close> where the exact sum is a rounding tie.
\<close>

lemma finalScore_nonzero:
  assumes "r \<noteq> 0" "a \<noteq> 0"
  shows "finalScore (calculateFinalScore w r a c ext) =
           Math_round (max 0 (min 100
             (r * ruleBased w + a * llm w + calculateExternalScore ext * external w)))"
  using assms by (simp add: calculateFinalScore_def Let_def or_default_def)

text \<open>
  Claim C1, at a rule-based raw score of \<open>0\<close>. The claim asks for the clamped weighted
  sum of the raw scores, up to rounding. With the default weights, a rule-based score of
  \<open>0\<close>, a semantic score of \<open>80\<close> (confidence \<open>90\<close>) and four channels at \<open>80\<close>, that
  sum is \<open>0 * 0.3 + 80 * 0.4 + 80 * 0.3 = 56\<close>. \<open>calculateFinalScore\<close> reads the
  rule-based score through \<open>score || 50\<close>, takes \<open>50\<close> for the \<open>0\<close>, and returns
  \<open>71\<close> with confidence \<open>82\<close>, which \<open>makeDecision\<close> approves.
\<close>

theorem finalScore_zero_rule_score:
  "finalScore (calculateFinalScore default_weights 0 80 90 (Some (four_channels 80 80 80 80))) = 71 \<and>
   confidence (calculateFinalScore default_weights 0 80 90 (Some (four_channels 80 80 80 80))) = 82 \<and>
   fst (makeDecision default_spamThreshold 71 82) = approved \<and>
   calculateExternalScore (Some (four_channels 80 80 80 80)) = 80 \<and>
   Math_round (max 0 (min 100 (0 * ruleBased default_weights + 80 * llm default_weights
      + 80 * external default_weights))) = 56"
  by (simp add: calculateFinalScore_def Let_def or_default_def external_four default_weights_def
      conf_unfold Math_round_numeral makeDecision_def default_spamThreshold_def)

section \<open>The decision\<close>

text \<open>
  Claim C2. Under the default thresholds, for every final score \<open>s\<close> and confidence
  \<open>c\<close>: the decision is approve exactly when \<open>s \<ge> 70\<close> and \<open>c \<ge> 70\<close>; it is flag
  exactly when \<open>s < 40\<close> and \<open>c \<ge> 60\<close>; it is pending review whenever \<open>c < 50\<close>, and
  in every remaining case. At the boundaries: \<open>(70, 70)\<close> approves, \<open>(69, 70)\<close> is
  pending review, \<open>(39, 60)\<close> flags, and confidence \<open>49\<close> is pending review for any
  score. The source names the three outcomes \<open>approved\<close>, \<open>flagged\<close> and
  \<open>pending_review\<close>.
\<close>

theorem makeDecision_default_thresholds:
  "(fst (makeDecision default_spamThreshold s c) = approved \<longleftrightarrow> s \<ge> 70 \<and> c \<ge> 70) \<and>
   (fst (makeDecision default_spamThreshold s c) = flagged \<longleftrightarrow> s < 40 \<and> c \<ge> 60) \<and>
   (c < 50 \<longrightarrow> fst (makeDecision default_spamThreshold s c) = pending_review) \<and>
   (\<not> (s \<ge> 70 \<and> c \<ge> 70) \<and> \<not> (s < 40 \<and> c \<ge> 60) \<longrightarrow>
      fst (makeDecision default_spamThreshold s c) = pending_review) \<and>
   fst (makeDecision default_spamThreshold 70 70) = approved \<and>
   fst (makeDecision default_spamThreshold 69 70) = pending_review \<and>
   fst (makeDecision default_spamThreshold 39 60) = flagged \<and>
   fst (makeDecision default_spamThreshold s 49) = pending_review"
  by (simp add: makeDecision_def default_spamThreshold_def)

theorem makeDecision_default_thresholds_witness:
  "(49::real) < 50 \<and> fst (makeDecision default_spamThreshold 85 49) = pending_review \<and>
   \<not> ((55::real) \<ge> 70 \<and> (90::real) \<ge> 70) \<and> \<not> ((55::real) < 40 \<and> (90::real) \<ge> 60) \<and>
   fst (makeDecision default_spamThreshold 55 90) = pending_review"
  using makeDecision_default_thresholds [of 85 49] makeDecision_default_thresholds [of 55 90]
  by simp

section \<open>The confidence\<close>

text \<open>
  Claim C3 as stated fails where a score sits exactly on \<open>70\<close>: with all three raw
  scores at \<open>70\<close> and a semantic confidence of \<open>50\<close> the specification's computation
  grants the agreement bonus and yields \<open>60\<close>, while the engine tests \<open>score > 70\<close>,
  grants no bonus and yields \<open>50\<close>.
\<close>

theorem confidence_bonus_boundary_counterexample:
  "confidence (calculateFinalScore default_weights 70 70 50 (Some (four_channels 70 70 70 70))) = 50 \<and>
   spec_confidence 70 70 (calculateExternalScore (Some (four_channels 70 70 70 70))) 50 = 60 \<and>
   confidence (calculateFinalScore default_weights 70 70 50 (Some (four_channels 70 70 70 70))) \<noteq>
     spec_confidence 70 70 (calculateExternalScore (Some (four_channels 70 70 70 70))) 50"
  by (simp add: engine_confidence external_four or_default_def calculateConfidence_def
      spec_confidence_def population_sd_eq sd_gt_20 sd_gt_10 allHigh_def allLow_def
      Math_round_numeral)

text \<open>
  Claim C3, amended. For rule-based and semantic raw scores other than \<open>0\<close> and a
  semantic confidence other than \<open>0\<close>, the engine's confidence is: the semantic
  confidence, minus \<open>15\<close> if the standard deviation of the three raw scores exceeds
  \<open>20\<close>, else minus \<open>8\<close> if it exceeds \<open>10\<close>; plus \<open>10\<close> if all three raw scores are
  strictly above \<open>70\<close> or all are below \<open>40\<close>; clamped to \<open>[0, 100]\<close>; rounded to the
  nearest integer. The rounding changes nothing when the semantic confidence is an
  integer.
\<close>

theorem confidence_computation:
  assumes "rule_score \<noteq> 0" "llm_score \<noteq> 0" "llm_confidence \<noteq> 0"
  shows "confidence (calculateFinalScore w rule_score llm_score llm_confidence ext) =
           Math_round (amended_confidence rule_score llm_score
             (calculateExternalScore ext) llm_confidence)
         \<and> (llm_confidence \<in> \<int> \<longrightarrow>
            confidence (calculateFinalScore w rule_score llm_score llm_confidence ext) =
              amended_confidence rule_score llm_score (calculateExternalScore ext) llm_confidence)"
proof -
  let ?A = "amended_confidence rule_score llm_score (calculateExternalScore ext) llm_confidence"
  have eq: "confidence (calculateFinalScore w rule_score llm_score llm_confidence ext) =
              Math_round ?A"
    using assms by (simp add: engine_confidence or_default_def calculateConfidence_amended)
  have "llm_confidence \<in> \<int> \<Longrightarrow> ?A \<in> \<int>"
    by (auto simp: amended_confidence_def Let_def max_def min_def)
  then have "llm_confidence \<in> \<int> \<Longrightarrow> Math_round ?A = ?A"
    using Math_round_int by (metis Ints_cases)
  with eq show ?thesis by simp
qed

theorem confidence_computation_witness:
  "(80::real) \<noteq> 0 \<and> (90::real) \<noteq> 0 \<and> (75::real) \<noteq> 0 \<and> (75::real) \<in> \<int> \<and>
   confidence (calculateFinalScore default_weights 80 90 75 (Some (four_channels 85 85 85 85))) =
     amended_confidence 80 90 (calculateExternalScore (Some (four_channels 85 85 85 85))) 75"
  using confidence_computation [of 80 90 75 default_weights "Some (four_channels 85 85 85 85)"]
  by simp

text \<open>
  Claim C8. For every base confidence \<open>c\<close> in \<open>[0, 100]\<close> and raw scores in
  \<open>[80, 100]\<close>, the confidence computed from the three scores is strictly higher than
  the one computed with any one of the three scores replaced by \<open>20\<close>.
\<close>

theorem agreement_beats_outlier:
  assumes "80 \<le> r" "r \<le> 100" "80 \<le> a" "a \<le> 100" "80 \<le> e" "e \<le> 100"
    and "0 \<le> c" "c \<le> 100"
  shows "calculateConfidence 20 a e c < calculateConfidence r a e c \<and>
         calculateConfidence r 20 e c < calculateConfidence r a e c \<and>
         calculateConfidence r a 20 c < calculateConfidence r a e c"
  using assms by (simp add: conf_all_high conf_outlier)

theorem agreement_beats_outlier_witness:
  "calculateConfidence 20 90 85 75 < calculateConfidence 80 90 85 75 \<and>
   calculateConfidence 80 20 85 75 < calculateConfidence 80 90 85 75 \<and>
   calculateConfidence 80 90 20 75 < calculateConfidence 80 90 85 75"
  using agreement_beats_outlier [of 80 90 85 75] by simp

text \<open>
  Claim C9 as stated fails at low base confidences, where both computations clamp to
  \<open>0\<close>: with base confidence \<open>5\<close>, the scores \<open>10, 50, 90\<close> (standard deviation above
  \<open>20\<close>) and the scores \<open>35, 50, 65\<close> (standard deviation at most \<open>20\<close>), neither with
  an agreement bonus, both yield confidence \<open>0\<close>.
\<close>

theorem high_deviation_counterexample:
  "standardDeviation [10, 50, 90] > 20 \<and> standardDeviation [35, 50, 65] \<le> 20 \<and>
   (allHigh [10, 50, 90] \<or> allLow [10, 50, 90]) = (allHigh [35, 50, 65] \<or> allLow [35, 50, 65]) \<and>
   calculateConfidence 10 50 90 5 = 0 \<and> calculateConfidence 35 50 65 5 = 0 \<and>
   \<not> calculateConfidence 10 50 90 5 < calculateConfidence 35 50 65 5"
  by (simp add: conf_unfold sd_gt_20 allHigh_def allLow_def not_less [symmetric])

text \<open>
  Claim C9, amended. For every base confidence \<open>c\<close> in \<open>[0, 100]\<close>, a computation whose
  raw scores have standard deviation above \<open>20\<close> never yields a higher confidence than
  one with the same \<open>c\<close> and the same agreement-bonus status whose raw scores have
  standard deviation at most \<open>20\<close>; it yields a strictly lower confidence exactly when
  the latter confidence is above \<open>0\<close>, in particular whenever \<open>c > 8\<close>.
\<close>

theorem high_deviation_lowers_confidence:
  assumes "standardDeviation [r1, a1, e1] > 20"
    and "standardDeviation [r2, a2, e2] \<le> 20"
    and "(allHigh [r1, a1, e1] \<or> allLow [r1, a1, e1]) =
         (allHigh [r2, a2, e2] \<or> allLow [r2, a2, e2])"
    and "0 \<le> c" "c \<le> 100"
  shows "calculateConfidence r1 a1 e1 c \<le> calculateConfidence r2 a2 e2 c \<and>
         (calculateConfidence r1 a1 e1 c < calculateConfidence r2 a2 e2 c
            \<longleftrightarrow> 0 < calculateConfidence r2 a2 e2 c) \<and>
         (8 < c \<longrightarrow> calculateConfidence r1 a1 e1 c < calculateConfidence r2 a2 e2 c)"
proof -
  define b :: real where "b = (if allHigh [r1, a1, e1] \<or> allLow [r1, a1, e1] then 10 else 0)"
  define p :: real where "p = (if standardDeviation [r2, a2, e2] > 10 then 8 else 0)"
  have c1: "calculateConfidence r1 a1 e1 c = max 0 (min 100 (c - 15 + b))"
    using assms(1) by (simp add: calculateConfidence_def b_def Let_def)
  have c2: "calculateConfidence r2 a2 e2 c = max 0 (min 100 (c - p + b))"
    using assms(2,3) by (simp add: calculateConfidence_def b_def p_def Let_def)
  have "c - 15 + b < c - p + b" "c - 15 + b < 100"
    using assms(5) by (simp_all add: b_def p_def)
  from clamp_strict [OF this] have main:
    "calculateConfidence r1 a1 e1 c \<le> calculateConfidence r2 a2 e2 c \<and>
     (calculateConfidence r1 a1 e1 c < calculateConfidence r2 a2 e2 c
            \<longleftrightarrow> 0 < calculateConfidence r2 a2 e2 c)"
    by (simp add: c1 c2)
  have "8 < c \<Longrightarrow> 0 < calculateConfidence r2 a2 e2 c"
    using assms(5) by (simp add: c2 b_def p_def)
  with main show ?thesis by blast
qed

theorem high_deviation_lowers_confidence_witness:
  "standardDeviation [10, 50, 90] > 20 \<and> standardDeviation [35, 50, 65] \<le> 20 \<and>
   (allHigh [10, 50, 90] \<or> allLow [10, 50, 90]) = (allHigh [35, 50, 65] \<or> allLow [35, 50, 65]) \<and>
   calculateConfidence 10 50 90 50 < calculateConfidence 35 50 65 50"
proof -
  have h1: "standardDeviation [10, 50, 90] > 20"
    by (simp add: sd_gt_20)
  have h2: "standardDeviation [35, 50, 65] \<le> 20"
    by (simp add: sd_gt_20 not_less [symmetric])
  have h3: "(allHigh [10, 50, 90] \<or> allLow [10, 50, 90]) =
            (allHigh [35, 50, 65] \<or> allLow [35, 50, 65])"
    by (simp add: allHigh_def allLow_def)
  have h4: "(0::real) \<le> 50" "(50::real) \<le> 100" "(8::real) < 50"
    by simp_all
  have "calculateConfidence 10 50 90 50 < calculateConfidence 35 50 65 50"
    using high_deviation_lowers_confidence [OF h1 h2 h3 h4(1) h4(2)] h4(3) by blast
  with h1 h2 h3 show ?thesis by blast
qed

section \<open>Zero scores at the merge step\<close>

text \<open>
  Claim C10 as stated covers every source. The external source's raw score is the
  mean computed by \<open>calculateExternalScore\<close> and is used as it is: when the four
  channels all score \<open>0\<close> the external raw score is \<open>0\<close> and contributes \<open>0\<close>, not
  \<open>50 * 0.3\<close>, to the weighted sum (final score \<open>42\<close> for rule-based and semantic
  scores of \<open>60\<close>).
\<close>

theorem zero_external_score_counterexample:
  "calculateExternalScore (Some (four_channels 0 0 0 0)) = 0 \<and>
   externalWeighted (breakdown (calculateFinalScore default_weights 60 60 80
     (Some (four_channels 0 0 0 0)))) = 0 \<and>
   externalWeighted (breakdown (calculateFinalScore default_weights 60 60 80
     (Some (four_channels 0 0 0 0)))) \<noteq> 50 * external default_weights \<and>
   finalScore (calculateFinalScore default_weights 60 60 80 (Some (four_channels 0 0 0 0))) = 42"
  by (simp add: calculateFinalScore_def Let_def or_default_def external_four default_weights_def
      Math_round_numeral)

text \<open>
  Claim C10, amended. Whenever the rule-based or the semantic source's raw score is
  \<open>0\<close>, or the semantic source's confidence is \<open>0\<close>, the engine computes exactly as if
  that value were \<open>50\<close>: a raw score of \<open>0\<close> contributes \<open>50\<close> times its weight to the
  weighted sum, and a semantic confidence of \<open>0\<close> makes the confidence computation
  start from \<open>50\<close>.
\<close>

theorem zero_coercion_at_merge:
  "calculateFinalScore w 0 a c ext = calculateFinalScore w 50 a c ext \<and>
   calculateFinalScore w r 0 c ext = calculateFinalScore w r 50 c ext \<and>
   calculateFinalScore w r a 0 ext = calculateFinalScore w r a 50 ext \<and>
   ruleBasedWeighted (breakdown (calculateFinalScore w 0 a c ext)) = 50 * ruleBased w \<and>
   llmWeighted (breakdown (calculateFinalScore w r 0 c ext)) = 50 * llm w \<and>
   confidence (calculateFinalScore w r a 0 ext) =
     Math_round (calculateConfidence (or_default r 50) (or_default a 50)
       (calculateExternalScore ext) 50)"
  by (simp add: calculateFinalScore_def Let_def or_default_def)

section \<open>The rule engine\<close>

lemma checkKeywords_missing:
  "companyName d = None \<or> role d = None \<or> industry d = None \<Longrightarrow>
   checkKeywords d = Inl (type_error ''null'' ''toLowerCase'')"
  by (auto simp: checkKeywords_def Let_def split: option.splits)

lemma checkKeywords_present:
  "companyName d \<noteq> None \<Longrightarrow> role d \<noteq> None \<Longrightarrow> industry d \<noteq> None \<Longrightarrow>
   \<exists>a. checkKeywords d = Inr a"
  by (auto simp: checkKeywords_def Let_def split: option.splits)

lemma rule_missing:
  "companyName d = None \<or> role d = None \<or> industry d = None \<Longrightarrow>
   rule_scoreRecruiter L d = Inl (type_error ''null'' ''toLowerCase'')"
  by (simp add: rule_scoreRecruiter_def checkKeywords_missing)

lemma rule_calculateFinalScore_range:
  "0 \<le> rule_calculateFinalScore d \<and> rule_calculateFinalScore d \<le> 100"
  by (simp add: rule_calculateFinalScore_def Let_def Math_round_range)

text \<open>Whenever the rule engine returns, its score lies in \<open>[0, 100]\<close>.\<close>

lemma rule_score_range:
  "rule_scoreRecruiter L d = Inr r \<Longrightarrow> 0 \<le> rb_score r \<and> rb_score r \<le> 100"
  using rule_calculateFinalScore_range
  by (auto simp: rule_scoreRecruiter_def Let_def split: sum.splits)

lemma str_split_nonempty: "str_split sep s \<noteq> []"
  by (induction s) (auto split: list.splits)

lemma str_split_two: "sep \<in> set s \<Longrightarrow> \<exists>a b rest. str_split sep s = a # b # rest"
proof (induction s)
  case Nil
  then show ?case by simp
next
  case (Cons c s)
  show ?case
  proof (cases "c = sep")
    case True
    obtain p ps where "str_split sep s = p # ps"
      using str_split_nonempty [of sep s] by (cases "str_split sep s") auto
    with True show ?thesis by simp
  next
    case False
    with Cons obtain a b rest where "str_split sep s = a # b # rest" by auto
    with False show ?thesis by simp
  qed
qed

lemma analyzeEmail_returns:
  assumes "\<And>e. isEmail L e \<Longrightarrow> CHR ''@'' \<in> set e"
  shows "\<exists>a. analyzeEmail L email = Inr a"
proof (cases email)
  case None
  then show ?thesis by (simp add: analyzeEmail_def)
next
  case (Some e)
  show ?thesis
  proof (cases "e = [] \<or> \<not> isEmail L e")
    case True
    with Some show ?thesis by (auto simp: analyzeEmail_def)
  next
    case False
    then have "CHR ''@'' \<in> set e" using assms by simp
    from str_split_two [OF this] obtain a b rest
      where "str_split (CHR ''@'') e = a # b # rest" by blast
    with Some False show ?thesis by (simp add: analyzeEmail_def Let_def)
  qed
qed

text \<open>
  With a company name, a role and an industry present, and a validator that accepts
  only addresses holding an \<open>@\<close>, the rule engine returns a score in \<open>[0, 100]\<close>,
  whatever the e-mail, phone and website are.
\<close>

lemma rule_returns:
  assumes "\<And>e. isEmail L e \<Longrightarrow> CHR ''@'' \<in> set e"
    and "companyName d \<noteq> None" "role d \<noteq> None" "industry d \<noteq> None"
  shows "\<exists>r. rule_scoreRecruiter L d = Inr r \<and> 0 \<le> rb_score r \<and> rb_score r \<le> 100"
proof -
  obtain k where k: "checkKeywords d = Inr k"
    using checkKeywords_present assms by blast
  obtain e where e: "analyzeEmail L (businessEmail d) = Inr e"
    using analyzeEmail_returns [OF assms(1)] by blast
  from k e obtain r where r: "rule_scoreRecruiter L d = Inr r"
    by (simp add: rule_scoreRecruiter_def Let_def)
  with rule_score_range [OF r] show ?thesis by simp
qed

text \<open>
  Claim C6, at a recruiter without company name, role or industry. The claim asks for
  a result with the category degraded to a neutral score, and no throw.
  \<open>checkKeywords\<close> runs first and calls \<open>toLowerCase\<close> on the missing property, so
  the rule engine's \<open>scoreRecruiter\<close> rejects with a \<open>TypeError\<close> for any validator
  library \<open>L\<close>. The analysers that follow would have handled the missing value:
  \<open>analyzeCompanyName\<close> yields \<open>55\<close> and \<open>analyzeIndustry\<close> yields \<open>80\<close> for it.
\<close>

theorem rule_engine_throws_on_missing_attribute:
  "rule_scoreRecruiter L (sample_recruiter\<lparr>companyName := None\<rparr>) = Inl (type_error ''null'' ''toLowerCase'') \<and>
   rule_scoreRecruiter L (sample_recruiter\<lparr>role := None\<rparr>) = Inl (type_error ''null'' ''toLowerCase'') \<and>
   rule_scoreRecruiter L (sample_recruiter\<lparr>industry := None\<rparr>) = Inl (type_error ''null'' ''toLowerCase'') \<and>
   analyzeCompanyName None = invalid_company_name \<and> fst invalid_company_name = 55 \<and>
   analyzeIndustry None = missing_industry \<and> fst missing_industry = 80"
  by (simp add: rule_missing analyzeCompanyName_def analyzeIndustry_def
      invalid_company_name_def missing_industry_def)

section \<open>The workflow\<close>

lemma scoreRecruiter_not_found:
  "\<not> found env \<Longrightarrow> scoreRecruiter w th env rid = Inl (''Recruiter not found: '' @ rid)"
  by (simp add: scoreRecruiter_def)

text \<open>
  The workflow returns a decision record whenever the recruiter is found and
  persistence does not fail, however the three sources behave.
\<close>

lemma scoreRecruiter_completes:
  "found env \<Longrightarrow> persistenceFailure env = None \<Longrightarrow>
   \<exists>rec. scoreRecruiter w th env rid = Inr rec"
  by (simp add: scoreRecruiter_def Let_def)

lemma scoreRecruiter_fields:
  assumes "found env" "persistenceFailure env = None"
    and "scoreRecruiter w th env rid = Inr rec"
  shows "dr_finalScore rec = finalScore (calculateFinalScore w
            (processed_score (rule_handlePromiseResult (ruleBasedSettled env)))
            (lr_score (dr_llmScore rec)) (lr_confidence (dr_llmScore rec))
            (Some (external_handlePromiseResult (externalSettled env))))"
    and "dr_confidence rec = confidence (calculateFinalScore w
            (processed_score (rule_handlePromiseResult (ruleBasedSettled env)))
            (lr_score (dr_llmScore rec)) (lr_confidence (dr_llmScore rec))
            (Some (external_handlePromiseResult (externalSettled env))))"
    and "dr_decision rec = fst (makeDecision th (dr_finalScore rec) (dr_confidence rec))"
    and "dr_llmScore rec = llm_scoreRecruiter (apiKeyConfigured env)
            (Some (rule_handlePromiseResult (ruleBasedSettled env))) (provider env)"
  using assms by (auto simp: scoreRecruiter_def Let_def)

lemma llm_80_90:
  "lr_score (llm_scoreRecruiter True (Some (RuleResults r))
      (Parsed (JObject [(''score'', JNumber 80), (''confidence'', JNumber 90)]))) = 80 \<and>
   lr_confidence (llm_scoreRecruiter True (Some (RuleResults r))
      (Parsed (JObject [(''score'', JNumber 80), (''confidence'', JNumber 90)]))) = 90"
  by (simp add: llm_scoreRecruiter_def llm_try_def buildPrompt_def normalizeResponse_def
      get_prop_def valid_number_def Math_round_numeral)

lemma zero_rule_eval:
  "finalScore (calculateFinalScore default_weights 0 80 90 (Some (four_channels 80 80 80 80))) = 71 \<and>
   confidence (calculateFinalScore default_weights 0 80 90 (Some (four_channels 80 80 80 80))) = 82"
  by (simp add: calculateFinalScore_def Let_def or_default_def external_four default_weights_def
      conf_unfold Math_round_numeral)

text \<open>
  The whole workflow on a recruiter whose rule-based score is \<open>0\<close>: the record carries
  the final score \<open>71\<close>, the confidence \<open>82\<close> and the decision \<open>approved\<close>.
\<close>

lemma decide_zero_rule_score:
  "\<exists>rec. scoreRecruiter default_weights default_spamThreshold zero_rule_run ''a'' = Inr rec \<and>
     dr_finalScore rec = 71 \<and> dr_confidence rec = 82 \<and> dr_decision rec = approved"
proof -
  have f: "found zero_rule_run" "persistenceFailure zero_rule_run = None"
    by (simp_all add: zero_rule_run_def)
  from scoreRecruiter_completes [OF f] obtain rec where
    rec: "scoreRecruiter default_weights default_spamThreshold zero_rule_run ''a'' = Inr rec"
    by blast
  note fs = scoreRecruiter_fields [OF f rec]
  have l: "lr_score (dr_llmScore rec) = 80" "lr_confidence (dr_llmScore rec) = 90"
    using llm_80_90 by (simp_all add: fs(4) zero_rule_run_def rule_handlePromiseResult_def)
  have r: "processed_score (rule_handlePromiseResult (ruleBasedSettled zero_rule_run)) = 0"
    by (simp add: zero_rule_run_def rule_handlePromiseResult_def processed_score_def
        sample_rule_results_def)
  have e: "external_handlePromiseResult (externalSettled zero_rule_run) =
             four_channels 80 80 80 80"
    by (simp add: zero_rule_run_def external_handlePromiseResult_def)
  have v: "dr_finalScore rec = 71" "dr_confidence rec = 82"
    using zero_rule_eval by (simp_all add: fs(1,2) l r e)
  then have "dr_decision rec = approved"
    by (simp add: fs(3) makeDecision_def default_spamThreshold_def)
  with v rec show ?thesis by blast
qed

section \<open>The batch coordinator\<close>

text \<open>With a positive chunk size the loop ends, having pushed one entry per remaining id.\<close>

lemma batch_loop_returns:
  assumes "0 < concurrency"
  shows "batch_loop sc coe concurrency ids i acc =
           Some (acc @ map (\<lambda>x. value_or_reason (batch_item sc coe x)) (drop i ids))"
proof (induction "length ids - i" arbitrary: i acc rule: less_induct)
  case less
  let ?f = "\<lambda>x. value_or_reason (batch_item sc coe x)"
  show ?case
  proof (cases "i < length ids")
    case True
    then have "length ids - (i + concurrency) < length ids - i" using assms by simp
    from less [OF this] have
      "batch_loop sc coe concurrency ids (i + concurrency)
         (acc @ map ?f (take concurrency (drop i ids))) =
       Some ((acc @ map ?f (take concurrency (drop i ids)))
          @ map ?f (drop (i + concurrency) ids))" .
    moreover have "take concurrency (drop i ids) @ drop (i + concurrency) ids = drop i ids"
      by (metis add.commute append_take_drop_id drop_drop)
    then have "map ?f (take concurrency (drop i ids)) @ map ?f (drop (i + concurrency) ids)
        = map ?f (drop i ids)"
      by (metis map_append)
    ultimately show ?thesis using True
      by (subst batch_loop.simps) simp
  next
    case False
    then show ?thesis by (subst batch_loop.simps) simp
  qed
qed

lemma batch_results:
  assumes "0 < concurrency"
  shows "batchScoreRecruiters sc ids concurrency coe =
     Some \<lparr>total = length ids,
           successful = length (filter (\<lambda>x. \<not> isl (sc x)) ids),
           failed = length ids - length (filter (\<lambda>x. \<not> isl (sc x)) ids),
           results = map (\<lambda>x. value_or_reason (batch_item sc coe x)) ids\<rparr>"
proof -
  have "success (value_or_reason (batch_item sc coe x)) = (\<not> isl (sc x))" for x
    by (cases "sc x") (auto simp: value_or_reason_def batch_item_def)
  then have "filter success (map (\<lambda>x. value_or_reason (batch_item sc coe x)) ids)
      = map (\<lambda>x. value_or_reason (batch_item sc coe x)) (filter (\<lambda>x. \<not> isl (sc x)) ids)"
    by (simp add: filter_map comp_def)
  then show ?thesis
    by (simp add: batchScoreRecruiters_def batch_loop_returns [OF assms])
qed

text \<open>
  With \<open>continueOnError = true\<close> and a chunk size of at least \<open>1\<close>, the batch returns;
  its entries carry the input ids, each once and in input order; an entry is successful
  exactly when scoring that id fulfilled; and the counts add up.
\<close>

lemma batch_continue:
  assumes "0 < concurrency"
  shows "\<exists>r. batchScoreRecruiters sc ids concurrency True = Some r \<and>
           total r = length ids \<and> successful r + failed r = total r \<and>
           map entry_id (results r) = map Some ids \<and>
           map success (results r) = map (\<lambda>x. \<not> isl (sc x)) ids"
proof -
  have a: "entry_id (value_or_reason (batch_item sc True x)) = Some x" for x
    by (cases "sc x") (auto simp: value_or_reason_def batch_item_def)
  have b: "success (value_or_reason (batch_item sc True x)) = (\<not> isl (sc x))" for x
    by (cases "sc x") (auto simp: value_or_reason_def batch_item_def)
  show ?thesis
    by (simp add: batch_results [OF assms] a b comp_def)
qed

lemma runs_b_missing_outcomes:
  "\<exists>ra rc.
     scoreRecruiter default_weights default_spamThreshold (runs_b_missing ''a'') ''a'' = Inr ra \<and>
     scoreRecruiter default_weights default_spamThreshold (runs_b_missing ''b'') ''b''
       = Inl ''Recruiter not found: b'' \<and>
     scoreRecruiter default_weights default_spamThreshold (runs_b_missing ''c'') ''c'' = Inr rc"
proof -
  let ?sc = "\<lambda>recruiterId. scoreRecruiter default_weights default_spamThreshold
                         (runs_b_missing recruiterId) recruiterId"
  have "\<exists>rec. ?sc ''a'' = Inr rec" "\<exists>rec. ?sc ''c'' = Inr rec"
    by (rule scoreRecruiter_completes; simp add: runs_b_missing_def healthy_run_def)+
  moreover have "?sc ''b'' = Inl ''Recruiter not found: b''"
    using scoreRecruiter_not_found [of "runs_b_missing ''b''"]
    by (simp add: runs_b_missing_def healthy_run_def)
  ultimately show ?thesis by blast
qed

text \<open>
  The example of the claim with \<open>continueOnError = true\<close>: three entries, \<open>b\<close> failed,
  \<open>a\<close> and \<open>c\<close> successful.
\<close>

lemma batch_example_continue:
  "map_option (\<lambda>r. (total r, successful r, failed r, map entry_id (results r),
                     map success (results r)))
     (batchScoreRecruiters
        (\<lambda>recruiterId. scoreRecruiter default_weights default_spamThreshold
                         (runs_b_missing recruiterId) recruiterId)
        [''a'', ''b'', ''c''] 2 True)
   = Some (3, 2, 1, [Some ''a'', Some ''b'', Some ''c''], [True, False, True])"
  using runs_b_missing_outcomes
  by (auto simp: batch_results value_or_reason_def batch_item_def)

text \<open>
  Claim C7, with \<open>continueOnError = false\<close>. The claim asks that the first fatal
  failure abort the remaining work. For the ids \<open>a\<close>, \<open>b\<close>, \<open>c\<close> in chunks of \<open>2\<close>,
  with \<open>b\<close> not found, the callback rethrows for \<open>b\<close>, \<open>Promise.allSettled\<close> turns the
  rejection into a settled result, and the loop goes on to the second chunk: the batch
  returns three entries, the \<open>Error\<close> itself in the place of \<open>b\<close> (it carries no
  recruiter id), and \<open>c\<close> scored successfully.
\<close>

theorem batch_continues_after_rejection:
  "map_option (\<lambda>r. (total r, successful r, failed r, map entry_id (results r),
                     map success (results r)))
     (batchScoreRecruiters
        (\<lambda>recruiterId. scoreRecruiter default_weights default_spamThreshold
                         (runs_b_missing recruiterId) recruiterId)
        [''a'', ''b'', ''c''] 2 False)
   = Some (3, 2, 1, [Some ''a'', None, Some ''c''], [True, False, True])"
  using runs_b_missing_outcomes
  by (auto simp: batch_results value_or_reason_def batch_item_def)

section \<open>The semantic assessor adapter\<close>

lemma fallback_fields:
  "lr_score (getFallbackScore m) = 50 \<and> lr_confidence (getFallbackScore m) = 0 \<and>
   lr_error (getFallbackScore m) \<and>
   reasoning (getFallbackScore m) =
     ''LLM analysis failed: '' @ m @ ''. Manual review recommended.''"
  by (simp add: getFallbackScore_def)

lemma llm_throw_fallback:
  "llm_try k ctx outcome = Inl m \<Longrightarrow> llm_scoreRecruiter k ctx outcome = getFallbackScore m"
  by (simp add: llm_scoreRecruiter_def)

lemma llm_try_failures:
  "llm_try False ctx outcome = Inl ''Gemini API key not configured''"
  "llm_try True (Some (RuleFailed e)) outcome = Inl (type_error ''undefined'' ''length'')"
  "buildPrompt ctx = Inr x \<Longrightarrow> llm_try True ctx (CallRejected m) = Inl m"
  "buildPrompt ctx = Inr x \<Longrightarrow>
     llm_try True ctx (NotJSON txt) = Inl ''Invalid JSON response from Gemini''"
  "buildPrompt ctx = Inr x \<Longrightarrow>
     llm_try True ctx (Parsed JNull) = Inl (type_error ''null'' ''score'')"
  by (simp_all add: llm_try_def buildPrompt_def normalizeResponse_def)

text \<open>What the adapter makes of a payload that parsed to an object.\<close>

lemma llm_object:
  assumes "buildPrompt ctx = Inr x"
  shows "\<not> lr_error (llm_scoreRecruiter True ctx (Parsed (JObject kvs)))"
    and "map_of kvs ''score'' = Some (JNumber v) \<Longrightarrow> 0 \<le> v \<Longrightarrow> v \<le> 100 \<Longrightarrow>
         lr_score (llm_scoreRecruiter True ctx (Parsed (JObject kvs))) = Math_round v"
    and "(\<And>u. map_of kvs ''score'' = Some (JNumber u) \<Longrightarrow> u < 0 \<or> 100 < u) \<Longrightarrow>
         lr_score (llm_scoreRecruiter True ctx (Parsed (JObject kvs))) = 50"
    and "map_of kvs ''confidence'' = Some (JNumber v) \<Longrightarrow> 0 \<le> v \<Longrightarrow> v \<le> 100 \<Longrightarrow>
         lr_confidence (llm_scoreRecruiter True ctx (Parsed (JObject kvs))) = Math_round v"
    and "(\<And>u. map_of kvs ''confidence'' = Some (JNumber u) \<Longrightarrow> u < 0 \<or> 100 < u) \<Longrightarrow>
         lr_confidence (llm_scoreRecruiter True ctx (Parsed (JObject kvs))) = 50"
proof -
  have r: "llm_scoreRecruiter True ctx (Parsed (JObject kvs)) =
      (case normalizeResponse (JObject kvs) of Inl e \<Rightarrow> getFallbackScore e | Inr n \<Rightarrow> n)"
    using assms by (simp add: llm_scoreRecruiter_def llm_try_def)
  show "\<not> lr_error (llm_scoreRecruiter True ctx (Parsed (JObject kvs)))"
    by (simp add: r normalizeResponse_def)
  show "lr_score (llm_scoreRecruiter True ctx (Parsed (JObject kvs))) = Math_round v"
    if "map_of kvs ''score'' = Some (JNumber v)" "0 \<le> v" "v \<le> 100"
    using that by (simp add: r normalizeResponse_def get_prop_def valid_number_def)
  show "lr_confidence (llm_scoreRecruiter True ctx (Parsed (JObject kvs))) = Math_round v"
    if "map_of kvs ''confidence'' = Some (JNumber v)" "0 \<le> v" "v \<le> 100"
    using that by (simp add: r normalizeResponse_def get_prop_def valid_number_def)
  show "lr_score (llm_scoreRecruiter True ctx (Parsed (JObject kvs))) = 50"
    if "\<And>u. map_of kvs ''score'' = Some (JNumber u) \<Longrightarrow> u < 0 \<or> 100 < u"
    using that
    by (fastforce simp: r normalizeResponse_def get_prop_def valid_number_def
        split: option.splits json.splits)
  show "lr_confidence (llm_scoreRecruiter True ctx (Parsed (JObject kvs))) = 50"
    if "\<And>u. map_of kvs ''confidence'' = Some (JNumber u) \<Longrightarrow> u < 0 \<or> 100 < u"
    using that
    by (fastforce simp: r normalizeResponse_def get_prop_def valid_number_def
        split: option.splits json.splits)
qed

text \<open>A payload that is neither \<open>null\<close> nor an object has none of the properties.\<close>

lemma llm_non_object:
  assumes "buildPrompt ctx = Inr x" "j \<noteq> JNull" "\<And>kvs. j \<noteq> JObject kvs"
  shows "lr_score (llm_scoreRecruiter True ctx (Parsed j)) = 50 \<and>
         lr_confidence (llm_scoreRecruiter True ctx (Parsed j)) = 50 \<and>
         \<not> lr_error (llm_scoreRecruiter True ctx (Parsed j))"
  using assms
  by (cases j)
    (auto simp: llm_scoreRecruiter_def llm_try_def normalizeResponse_def get_prop_def
      valid_number_def)

lemma decide_with_failed_llm:
  assumes "found env" "persistenceFailure env = None"
    and "llm_try (apiKeyConfigured env)
           (Some (rule_handlePromiseResult (ruleBasedSettled env))) (provider env) = Inl m"
  shows "\<exists>rec. scoreRecruiter w th env rid = Inr rec \<and>
           dr_llmScore rec = getFallbackScore m \<and>
           \<lparr>err_source = ''llm'', err_value = ErrorTrue\<rparr> \<in> set (dr_errors rec)"
  using assms
  by (simp add: scoreRecruiter_def Let_def llm_throw_fallback collectAllErrors_def
      fallback_fields)

text \<open>
  Claim C4 as stated fails for a payload that parses but carries an invalid score or
  confidence: for \<open>{score: 150, confidence: "high"}\<close> the adapter returns score \<open>50\<close>
  and confidence \<open>50\<close>, not \<open>0\<close>, and records no error.
\<close>

theorem invalid_payload_counterexample:
  "lr_score (llm_scoreRecruiter True None (Parsed out_of_range_payload)) = 50 \<and>
   lr_confidence (llm_scoreRecruiter True None (Parsed out_of_range_payload)) = 50 \<and>
   lr_confidence (llm_scoreRecruiter True None (Parsed out_of_range_payload)) \<noteq> 0 \<and>
   \<not> lr_error (llm_scoreRecruiter True None (Parsed out_of_range_payload))"
  by (simp add: llm_scoreRecruiter_def llm_try_def buildPrompt_def normalizeResponse_def
      out_of_range_payload_def get_prop_def valid_number_def)

text \<open>
  Claim C4, amended. The adapter returns a result for every outcome. When the API key
  is missing, the call fails or times out, the response is not JSON, or it parses to
  \<open>null\<close>, the result is the fallback: score \<open>50\<close>, confidence \<open>0\<close>, the error flag
  set, and the cause named in the reasoning text. For a payload that parses to an
  object the error flag is not set; the score is the payload's \<open>score\<close>, rounded, when
  that is a number in \<open>[0, 100]\<close>, and \<open>50\<close> when it is missing, not a number or
  outside \<open>[0, 100]\<close>; likewise the confidence is the payload's \<open>confidence\<close>, rounded,
  or \<open>50\<close>. A payload that is neither \<open>null\<close> nor an object yields \<open>50\<close> and \<open>50\<close>
  with no error flag. Whenever the adapter falls back, the workflow (recruiter found,
  persistence working) returns a record whose semantic result has confidence \<open>0\<close> and
  whose error list holds an entry for the source \<open>llm\<close>.
\<close>

theorem semantic_adapter_degrades:
  "llm_scoreRecruiter False ctx outcome = getFallbackScore ''Gemini API key not configured'' \<and>
   (buildPrompt ctx = Inr x \<longrightarrow>
      llm_scoreRecruiter True ctx (CallRejected m) = getFallbackScore m \<and>
      llm_scoreRecruiter True ctx (NotJSON txt) =
        getFallbackScore ''Invalid JSON response from Gemini'' \<and>
      llm_scoreRecruiter True ctx (Parsed JNull) =
        getFallbackScore (type_error ''null'' ''score'')) \<and>
   lr_score (getFallbackScore m) = 50 \<and> lr_confidence (getFallbackScore m) = 0 \<and>
   lr_error (getFallbackScore m) \<and>
   reasoning (getFallbackScore m) =
     ''LLM analysis failed: '' @ m @ ''. Manual review recommended.'' \<and>
   (buildPrompt ctx = Inr x \<longrightarrow>
      \<not> lr_error (llm_scoreRecruiter True ctx (Parsed (JObject kvs))) \<and>
      (map_of kvs ''score'' = Some (JNumber v) \<and> 0 \<le> v \<and> v \<le> 100 \<longrightarrow>
         lr_score (llm_scoreRecruiter True ctx (Parsed (JObject kvs))) = Math_round v) \<and>
      ((\<forall>u. map_of kvs ''score'' = Some (JNumber u) \<longrightarrow> u < 0 \<or> 100 < u) \<longrightarrow>
         lr_score (llm_scoreRecruiter True ctx (Parsed (JObject kvs))) = 50) \<and>
      (map_of kvs ''confidence'' = Some (JNumber c) \<and> 0 \<le> c \<and> c \<le> 100 \<longrightarrow>
         lr_confidence (llm_scoreRecruiter True ctx (Parsed (JObject kvs))) = Math_round c) \<and>
      ((\<forall>u. map_of kvs ''confidence'' = Some (JNumber u) \<longrightarrow> u < 0 \<or> 100 < u) \<longrightarrow>
         lr_confidence (llm_scoreRecruiter True ctx (Parsed (JObject kvs))) = 50)) \<and>
   (buildPrompt ctx = Inr x \<and> j \<noteq> JNull \<and> (\<forall>kvs'. j \<noteq> JObject kvs') \<longrightarrow>
      lr_score (llm_scoreRecruiter True ctx (Parsed j)) = 50 \<and>
      lr_confidence (llm_scoreRecruiter True ctx (Parsed j)) = 50 \<and>
      \<not> lr_error (llm_scoreRecruiter True ctx (Parsed j))) \<and>
   (found env \<and> persistenceFailure env = None \<and>
    llm_try (apiKeyConfigured env) (Some (rule_handlePromiseResult (ruleBasedSettled env)))
      (provider env) = Inl m \<longrightarrow>
      (\<exists>rec. scoreRecruiter w th env rid = Inr rec \<and>
             lr_confidence (dr_llmScore rec) = 0 \<and> lr_score (dr_llmScore rec) = 50 \<and>
             \<lparr>err_source = ''llm'', err_value = ErrorTrue\<rparr> \<in> set (dr_errors rec)))"
proof -
  have wf: "found env \<and> persistenceFailure env = None \<and>
    llm_try (apiKeyConfigured env) (Some (rule_handlePromiseResult (ruleBasedSettled env)))
      (provider env) = Inl m \<longrightarrow>
      (\<exists>rec. scoreRecruiter w th env rid = Inr rec \<and>
             lr_confidence (dr_llmScore rec) = 0 \<and> lr_score (dr_llmScore rec) = 50 \<and>
             \<lparr>err_source = ''llm'', err_value = ErrorTrue\<rparr> \<in> set (dr_errors rec))"
    using decide_with_failed_llm [of env m w th rid] fallback_fields [of m] by auto
  have obj: "buildPrompt ctx = Inr x \<longrightarrow>
      \<not> lr_error (llm_scoreRecruiter True ctx (Parsed (JObject kvs))) \<and>
      (map_of kvs ''score'' = Some (JNumber v) \<and> 0 \<le> v \<and> v \<le> 100 \<longrightarrow>
         lr_score (llm_scoreRecruiter True ctx (Parsed (JObject kvs))) = Math_round v) \<and>
      ((\<forall>u. map_of kvs ''score'' = Some (JNumber u) \<longrightarrow> u < 0 \<or> 100 < u) \<longrightarrow>
         lr_score (llm_scoreRecruiter True ctx (Parsed (JObject kvs))) = 50) \<and>
      (map_of kvs ''confidence'' = Some (JNumber c) \<and> 0 \<le> c \<and> c \<le> 100 \<longrightarrow>
         lr_confidence (llm_scoreRecruiter True ctx (Parsed (JObject kvs))) = Math_round c) \<and>
      ((\<forall>u. map_of kvs ''confidence'' = Some (JNumber u) \<longrightarrow> u < 0 \<or> 100 < u) \<longrightarrow>
         lr_confidence (llm_scoreRecruiter True ctx (Parsed (JObject kvs))) = 50)"
    using llm_object(1) [of ctx x kvs] llm_object(2) [of ctx x kvs v]
      llm_object(3) [of ctx x kvs] llm_object(4) [of ctx x kvs c] llm_object(5) [of ctx x kvs]
    by blast
  have non: "buildPrompt ctx = Inr x \<and> j \<noteq> JNull \<and> (\<forall>kvs'. j \<noteq> JObject kvs') \<longrightarrow>
      lr_score (llm_scoreRecruiter True ctx (Parsed j)) = 50 \<and>
      lr_confidence (llm_scoreRecruiter True ctx (Parsed j)) = 50 \<and>
      \<not> lr_error (llm_scoreRecruiter True ctx (Parsed j))"
    using llm_non_object [of ctx x j] by blast
  have thr: "buildPrompt ctx = Inr x \<longrightarrow>
      llm_scoreRecruiter True ctx (CallRejected m) = getFallbackScore m \<and>
      llm_scoreRecruiter True ctx (NotJSON txt) =
        getFallbackScore ''Invalid JSON response from Gemini'' \<and>
      llm_scoreRecruiter True ctx (Parsed JNull) =
        getFallbackScore (type_error ''null'' ''score'')"
    by (simp add: llm_throw_fallback llm_try_failures)
  have key:
    "llm_scoreRecruiter False ctx outcome = getFallbackScore ''Gemini API key not configured''"
    by (simp add: llm_throw_fallback llm_try_failures)
  from key thr fallback_fields [of m] obj non wf show ?thesis by blast
qed

text \<open>
  The theorem at a context with one flag, at the payload \<open>{score: 150, confidence: 87.6}\<close>
  (score replaced by \<open>50\<close>, confidence rounded to \<open>88\<close>), at a string payload, and at a
  run whose semantic call times out.
\<close>

theorem semantic_adapter_degrades_witness:
  "buildPrompt (Some (RuleResults sample_rule_results)) = Inr (Some (1, 79)) \<and>
   llm_scoreRecruiter True (Some (RuleResults sample_rule_results))
     (NotJSON ''I cannot help with that'') =
       getFallbackScore ''Invalid JSON response from Gemini'' \<and>
   map_of [(''score'', JNumber 150), (''confidence'', JNumber (876 / 10))] ''score''
     = Some (JNumber 150) \<and> (100::real) < 150 \<and>
   lr_score (llm_scoreRecruiter True (Some (RuleResults sample_rule_results))
     (Parsed (JObject [(''score'', JNumber 150), (''confidence'', JNumber (876 / 10))]))) = 50 \<and>
   map_of [(''score'', JNumber 150), (''confidence'', JNumber (876 / 10))] ''confidence''
     = Some (JNumber (876 / 10)) \<and> (0::real) \<le> 876 / 10 \<and> (876 / 10 :: real) \<le> 100 \<and>
   lr_confidence (llm_scoreRecruiter True (Some (RuleResults sample_rule_results))
     (Parsed (JObject [(''score'', JNumber 150), (''confidence'', JNumber (876 / 10))]))) = 88 \<and>
   JString ''ok'' \<noteq> JNull \<and>
   lr_confidence (llm_scoreRecruiter True (Some (RuleResults sample_rule_results))
     (Parsed (JString ''ok''))) = 50 \<and>
   found timed_out_run \<and> persistenceFailure timed_out_run = None \<and>
   llm_try (apiKeyConfigured timed_out_run)
     (Some (rule_handlePromiseResult (ruleBasedSettled timed_out_run)))
     (provider timed_out_run) = Inl ''timeout of 10000ms exceeded'' \<and>
   (\<exists>rec. scoreRecruiter default_weights default_spamThreshold timed_out_run ''a'' = Inr rec \<and>
          lr_confidence (dr_llmScore rec) = 0 \<and>
          \<lparr>err_source = ''llm'', err_value = ErrorTrue\<rparr> \<in> set (dr_errors rec))"
proof -
  let ?kvs = "[(''score'', JNumber 150), (''confidence'', JNumber (876 / 10))]"
  have bp: "buildPrompt (Some (RuleResults sample_rule_results)) = Inr (Some (1, 79))"
    by (simp add: buildPrompt_def sample_rule_results_def)
  have sc: "\<forall>u. map_of ?kvs ''score'' = Some (JNumber u) \<longrightarrow> u < 0 \<or> 100 < u"
    by simp
  have cf: "map_of ?kvs ''confidence'' = Some (JNumber (876 / 10))"
    "(0::real) \<le> 876 / 10" "(876 / 10 :: real) \<le> 100"
    by simp_all
  have "\<lfloor>876 / 10 + 1 / 2 :: real\<rfloor> = 88"
    by (simp add: floor_eq_iff)
  then have rd: "Math_round (876 / 10) = 88"
    by (simp add: Math_round_def)
  have st: "JString ''ok'' \<noteq> JNull" "\<forall>kvs'. JString ''ok'' \<noteq> JObject kvs'"
    by simp_all
  have run: "found timed_out_run" "persistenceFailure timed_out_run = None"
    "llm_try (apiKeyConfigured timed_out_run)
       (Some (rule_handlePromiseResult (ruleBasedSettled timed_out_run)))
       (provider timed_out_run) = Inl ''timeout of 10000ms exceeded''"
    by (simp_all add: timed_out_run_def healthy_run_def llm_try_def buildPrompt_def
        rule_handlePromiseResult_def)
  note inst = semantic_adapter_degrades [of "Some (RuleResults sample_rule_results)"
      "Parsed JNull" "Some (1, 79)" "''timeout of 10000ms exceeded''"
      "''I cannot help with that''" ?kvs 150 "876 / 10" "JString ''ok''"
      timed_out_run default_weights default_spamThreshold "''a''"]
  have a: "llm_scoreRecruiter True (Some (RuleResults sample_rule_results))
     (NotJSON ''I cannot help with that'') =
       getFallbackScore ''Invalid JSON response from Gemini''"
    using inst bp by blast
  have b: "lr_score (llm_scoreRecruiter True (Some (RuleResults sample_rule_results))
     (Parsed (JObject ?kvs))) = 50"
    using inst bp sc by blast
  have c: "lr_confidence (llm_scoreRecruiter True (Some (RuleResults sample_rule_results))
     (Parsed (JObject ?kvs))) = Math_round (876 / 10)"
    using inst bp cf by blast
  have d: "lr_confidence (llm_scoreRecruiter True (Some (RuleResults sample_rule_results))
     (Parsed (JString ''ok''))) = 50"
    using inst bp st by blast
  have e: "\<exists>rec. scoreRecruiter default_weights default_spamThreshold timed_out_run ''a''
          = Inr rec \<and> lr_confidence (dr_llmScore rec) = 0 \<and>
          \<lparr>err_source = ''llm'', err_value = ErrorTrue\<rparr> \<in> set (dr_errors rec)"
    using inst run by blast
  from bp a b cf c rd d st(1) run e show ?thesis by simp
qed

section \<open>The external verification aggregator\<close>






text \<open>\<open>verifyPhone\<close> always yields a numeric score.\<close>

lemma verifyPhone_numeric: "\<exists>s. score (verifyPhone k http n) = Some s"
  by (auto simp: verifyPhone_def phone_fallback_def Let_def split: option.splits settled.splits)






end
